theory Spec2Isabelle
  imports Complex_Main
begin

section \<open>JavaScript text primitives used by the route handlers and the page\<close>

text \<open>
  Text is modelled as \<^typ>\<open>string\<close>: a sequence of 8-bit code units, read as the
  ISO-8859-1 range of JavaScript's UTF-16 code units. \<open>length\<close> and \<open>take\<close> then count
  what \<open>String.prototype.length\<close> and \<open>slice(0, n)\<close> count. A request field that may be
  absent (\<open>undefined\<close>) is a \<^typ>\<open>string option\<close>.
\<close>

definition truthy :: "string option \<Rightarrow> bool" where
  "truthy v = (case v of None \<Rightarrow> False | Some s \<Rightarrow> s \<noteq> [])"

text \<open>\<open>v || d\<close> on an optional string with a string default.\<close>

definition js_or :: "string option \<Rightarrow> string \<Rightarrow> string" where
  "js_or v d = (case v of None \<Rightarrow> d | Some s \<Rightarrow> if s = [] then d else s)"

text \<open>Interpolation \<open>${v}\<close> in a template literal: \<open>undefined\<close> prints as its name.\<close>

definition interp :: "string option \<Rightarrow> string" where
  "interp v = (case v of None \<Rightarrow> ''undefined'' | Some s \<Rightarrow> s)"

fun starts_with :: "string \<Rightarrow> string \<Rightarrow> bool" where
  "starts_with s [] = True"
| "starts_with [] (p # ps) = False"
| "starts_with (c # cs) (p # ps) = (c = p \<and> starts_with cs ps)"

text \<open>\<open>s.includes(p)\<close>: \<open>p\<close> occurs in \<open>s\<close> as a contiguous run.\<close>

fun includes_str :: "string \<Rightarrow> string \<Rightarrow> bool" where
  "includes_str [] p = (p = [])"
| "includes_str (c # cs) p = (starts_with (c # cs) p \<or> includes_str cs p)"

text \<open>\<open>s.replace(p, r)\<close> with a string pattern: only the first occurrence is replaced.\<close>

fun replace_first :: "string \<Rightarrow> string \<Rightarrow> string \<Rightarrow> string" where
  "replace_first p r [] = (if p = [] then r else [])"
| "replace_first p r (c # cs) =
     (if starts_with (c # cs) p then r @ drop (length p) (c # cs)
      else c # replace_first p r cs)"

text \<open>
  \<open>s.replace(/p/g, '')\<close> for a non-empty literal pattern \<open>p\<close>: the scan goes left to
  right and resumes after each occurrence it removes.
\<close>

function remove_all :: "string \<Rightarrow> string \<Rightarrow> string" where
  "remove_all p [] = []"
| "remove_all p (c # cs) =
     (if p \<noteq> [] \<and> starts_with (c # cs) p then remove_all p (drop (length p) (c # cs))
      else c # remove_all p cs)"
  by pat_completeness auto
termination
  by (relation "measure (\<lambda>(p, s). length s)") auto

text \<open>
  White space as \<open>trim()\<close> and the regular expression class \<open>\s\<close> see it, within the
  8-bit range: tab, line feed, vertical tab, form feed, carriage return, space and the
  no-break space.
\<close>

definition is_js_space :: "char \<Rightarrow> bool" where
  "is_js_space c = (let n = (of_char c :: nat) in (9 \<le> n \<and> n \<le> 13) \<or> n = 32 \<or> n = 160)"

definition trim :: "string \<Rightarrow> string" where
  "trim s = rev (dropWhile is_js_space (rev (dropWhile is_js_space s)))"

text \<open>
  \<open>toLowerCase()\<close> within the 8-bit range: the letters A to Z, and the accented capitals
  0xC0 to 0xDE except the multiplication sign 0xD7, move up by 32.
\<close>

definition lower_char :: "char \<Rightarrow> char" where
  "lower_char c =
     (let n = (of_char c :: nat) in
      if (65 \<le> n \<and> n \<le> 90) \<or> (192 \<le> n \<and> n \<le> 222 \<and> n \<noteq> 215) then char_of (n + 32) else c)"

definition toLowerCase :: "string \<Rightarrow> string" where
  "toLowerCase s = map lower_char s"

text \<open>\<open>s.replace(/\s+/g, '_')\<close>: every maximal run of white space becomes one underscore.\<close>

function underscore_spaces :: "string \<Rightarrow> string" where
  "underscore_spaces [] = []"
| "underscore_spaces (c # cs) =
     (if is_js_space c then CHR ''_'' # underscore_spaces (dropWhile is_js_space cs)
      else c # underscore_spaces cs)"
  by pat_completeness auto
termination
  by (relation "measure length") (auto simp: le_imp_less_Suc length_dropWhile_le)

text \<open>Decimal digits of a natural number, as \<open>Number.prototype.toString\<close> prints them.\<close>

definition digit_char :: "nat \<Rightarrow> char" where
  "digit_char d = char_of (48 + d)"

fun decimal :: "nat \<Rightarrow> string" where
  "decimal n = (if n < 10 then [digit_char n] else decimal (n div 10) @ [digit_char (n mod 10)])"

text \<open>\<open>s.padStart(2, '0')\<close>.\<close>

definition padStart2 :: "string \<Rightarrow> string" where
  "padStart2 s = replicate (2 - length s) CHR ''0'' @ s"


section \<open>JSON text as \<open>JSON.parse\<close> reads it\<close>

text \<open>
  \<open>JSON.parse\<close> is a built-in of the runtime; the model follows the JSON grammar
  (ECMA-404). String values are kept as lists of UTF-16 code units, so that an escape
  \<open>\uXXXX\<close> beyond 0xFF has a value. A number is the double its lexeme rounds to.
  An object is the list of its properties in the order the runtime enumerates them: the
  keys that are array indices first, in ascending order, then the other keys in the order
  they were first written; a repeated key keeps its place and takes the later value.
\<close>

type_synonym ustring = "nat list"

definition js :: "string \<Rightarrow> ustring" where
  "js s = map of_char s"

text \<open>
  A double that a decimal lexeme can denote: \<open>DFinite neg m e\<close> is the value
  \<open>m * 2 ^ e\<close> with its sign, and \<open>DInf neg\<close> an infinity. Zero is \<open>m = 0\<close>,
  \<open>e = 0\<close>; a normal number has \<open>2 ^ 52 \<le> m < 2 ^ 53\<close> and
  \<open>- 1074 \<le> e \<le> 971\<close>; a subnormal number has \<open>m < 2 ^ 52\<close> and
  \<open>e = - 1074\<close>. So equal doubles are equal values of the type.
\<close>

datatype double = DFinite bool nat int | DInf bool

datatype json =
    JNull
  | JBool bool
  | JNumber double
  | JString ustring
  | JArray "json list"
  | JObject "(ustring \<times> json) list"

datatype token =
    TLBrace | TRBrace | TLBracket | TRBracket | TComma | TColon
  | TStr ustring | TNum double | TTrue | TFalse | TNull

definition is_json_ws :: "char \<Rightarrow> bool" where
  "is_json_ws c = (let n = (of_char c :: nat) in n = 32 \<or> n = 9 \<or> n = 10 \<or> n = 13)"

definition is_digit :: "char \<Rightarrow> bool" where
  "is_digit c = (let n = (of_char c :: nat) in 48 \<le> n \<and> n \<le> 57)"

definition hex_val :: "char \<Rightarrow> nat option" where
  "hex_val c =
     (let n = (of_char c :: nat) in
      if 48 \<le> n \<and> n \<le> 57 then Some (n - 48)
      else if 65 \<le> n \<and> n \<le> 70 then Some (n - 55)
      else if 97 \<le> n \<and> n \<le> 102 then Some (n - 87)
      else None)"

definition hex4 :: "char \<Rightarrow> char \<Rightarrow> char \<Rightarrow> char \<Rightarrow> nat option" where
  "hex4 a b c d =
     (case (hex_val a, hex_val b, hex_val c, hex_val d) of
        (Some w, Some x, Some y, Some z) \<Rightarrow> Some (((w * 16 + x) * 16 + y) * 16 + z)
      | _ \<Rightarrow> None)"

text \<open>The single-character escapes after a backslash, with the code unit each stands for.\<close>

definition escape_char :: "char \<Rightarrow> nat option" where
  "escape_char e =
     (if e = CHR 0x22 then Some 34
      else if e = CHR 0x5C then Some 92
      else if e = CHR ''/'' then Some 47
      else if e = CHR ''b'' then Some 8
      else if e = CHR ''f'' then Some 12
      else if e = CHR ''n'' then Some 10
      else if e = CHR ''r'' then Some 13
      else if e = CHR ''t'' then Some 9
      else None)"

text \<open>
  The body of a string literal, after its opening quote: the code units up to the closing
  quote (accumulated in reverse) and the text after it. A raw control character, a bad
  escape and a missing closing quote are errors.
\<close>

fun lex_string :: "ustring \<Rightarrow> string \<Rightarrow> (ustring \<times> string) option" where
  "lex_string acc [] = None"
| "lex_string acc (c # cs) =
     (if c = CHR 0x22 then Some (rev acc, cs)
      else if c = CHR 0x5C then
        (case cs of
           [] \<Rightarrow> None
         | e # es \<Rightarrow>
             if e = CHR ''u'' then
               (case es of
                  h1 # h2 # h3 # h4 # r \<Rightarrow>
                    (case hex4 h1 h2 h3 h4 of
                       None \<Rightarrow> None
                     | Some n \<Rightarrow> lex_string (n # acc) r)
                | _ \<Rightarrow> None)
             else
               (case escape_char e of
                  None \<Rightarrow> None
                | Some n \<Rightarrow> lex_string (n # acc) es))
      else if (of_char c :: nat) < 32 then None
      else lex_string (of_char c # acc) cs)"

lemma lex_string_shorter: "lex_string acc s = Some (u, r) \<Longrightarrow> length r < length s"
proof (induction acc s rule: lex_string.induct)
  case (1 acc)
  then show ?case by simp
next
  case (2 acc c cs)
  show ?case
  proof (cases "c = CHR 0x22")
    case True
    with 2(4) show ?thesis by simp
  next
    case notq: False
    show ?thesis
    proof (cases "c = CHR 0x5C")
      case bs: True
      show ?thesis
      proof (cases cs)
        case Nil
        with 2(4) notq bs show ?thesis by simp
      next
        case (Cons e es)
        show ?thesis
        proof (cases "e = CHR ''u''")
          case u: True
          from 2(4) notq bs Cons u obtain h1 h2 h3 h4 r' n where
            es: "es = h1 # h2 # h3 # h4 # r'" and hx: "hex4 h1 h2 h3 h4 = Some n"
            and rec: "lex_string (n # acc) r' = Some (u, r)"
            by (simp split: list.splits option.splits)
          from 2(1)[of e es h1 "h2 # h3 # h4 # r'" h2 "h3 # h4 # r'" h3 "h4 # r'" h4 r' n]
            notq bs Cons u es hx rec
          show ?thesis by simp
        next
          case nu: False
          from 2(4) notq bs Cons nu obtain n where
            ec: "escape_char e = Some n" and rec: "lex_string (n # acc) es = Some (u, r)"
            by (simp split: option.splits)
          from 2(2)[OF notq bs Cons nu ec rec] Cons show ?thesis by simp
        qed
      qed
    next
      case nbs: False
      show ?thesis
      proof (cases "(of_char c :: nat) < 32")
        case True
        with 2(4) notq nbs show ?thesis by simp
      next
        case False
        with 2(4) notq nbs have rec: "lex_string (of_char c # acc) cs = Some (u, r)" by simp
        from 2(3)[OF notq nbs False rec] show ?thesis by simp
      qed
    qed
  qed
qed

text \<open>The number grammar: \<open>-? (0 | [1-9][0-9]*) (. [0-9]+)? ([eE] [+-]? [0-9]+)?\<close>.\<close>

definition need_digits :: "string \<Rightarrow> string option" where
  "need_digits s =
     (case s of
        [] \<Rightarrow> None
      | c # cs \<Rightarrow> if is_digit c then Some (dropWhile is_digit cs) else None)"

definition int_part :: "string \<Rightarrow> string option" where
  "int_part s =
     (case s of
        [] \<Rightarrow> None
      | c # cs \<Rightarrow> if c = CHR ''0'' then Some cs else need_digits (c # cs))"

definition frac_part :: "string \<Rightarrow> string option" where
  "frac_part s =
     (case s of
        [] \<Rightarrow> Some []
      | c # cs \<Rightarrow> if c = CHR ''.'' then need_digits cs else Some (c # cs))"

definition skip_sign :: "string \<Rightarrow> string" where
  "skip_sign s =
     (case s of
        [] \<Rightarrow> []
      | c # cs \<Rightarrow> if c = CHR ''+'' \<or> c = CHR ''-'' then cs else c # cs)"

definition exp_part :: "string \<Rightarrow> string option" where
  "exp_part s =
     (case s of
        [] \<Rightarrow> Some []
      | c # cs \<Rightarrow>
          if c = CHR ''e'' \<or> c = CHR ''E'' then need_digits (skip_sign cs) else Some (c # cs))"

definition is_json_number :: "string \<Rightarrow> bool" where
  "is_json_number s =
     (let s1 = (case s of [] \<Rightarrow> [] | c # cs \<Rightarrow> if c = CHR ''-'' then cs else c # cs) in
      case int_part s1 of
        None \<Rightarrow> False
      | Some s2 \<Rightarrow>
          (case frac_part s2 of
             None \<Rightarrow> False
           | Some s3 \<Rightarrow>
               (case exp_part s3 of
                  None \<Rightarrow> False
                | Some s4 \<Rightarrow> s4 = [])))"

text \<open>
  The value of a number: the decimal \<open>d * 10 ^ ex\<close> rounded to the nearest double,
  ties to the even mantissa, and to an infinity from \<open>2 ^ 1024 - 2 ^ 970\<close> on.
\<close>

function bitlen :: "nat \<Rightarrow> nat" where
  "bitlen n = (if n = 0 then 0 else Suc (bitlen (n div 2)))"
  by pat_completeness auto
termination
proof (relation "measure (\<lambda>n. n)")
  show "wf (measure (\<lambda>n::nat. n))" by simp
next
  fix n :: nat
  assume "n \<noteq> 0"
  then have "n div 2 < n" by (rule_tac div_less_dividend) simp_all
  then show "(n div 2, n) \<in> measure (\<lambda>n. n)" by simp
qed

declare bitlen.simps [simp del]

text \<open>\<open>2 ^ j \<le> num / den\<close>, for a positive denominator.\<close>

definition ge_pow2 :: "nat \<Rightarrow> nat \<Rightarrow> int \<Rightarrow> bool" where
  "ge_pow2 num den j = (if 0 \<le> j then den * 2 ^ nat j \<le> num else den \<le> num * 2 ^ nat (- j))"

text \<open>The largest \<open>j\<close> with \<open>2 ^ j \<le> num / den\<close>, for positive \<open>num\<close> and \<open>den\<close>.\<close>

definition floor_log2 :: "nat \<Rightarrow> nat \<Rightarrow> int" where
  "floor_log2 num den =
     (let j = int (bitlen num) - int (bitlen den) in if ge_pow2 num den j then j else j - 1)"

definition round_half_even :: "nat \<Rightarrow> nat \<Rightarrow> nat" where
  "round_half_even n d =
     (let q = n div d; r = n mod d in
      if 2 * r < d then q else if d < 2 * r then q + 1 else if even q then q else q + 1)"

text \<open>\<open>num / (den * 2 ^ e)\<close>, rounded to an integer.\<close>

definition scaled_round :: "nat \<Rightarrow> nat \<Rightarrow> int \<Rightarrow> nat" where
  "scaled_round num den e =
     (if 0 \<le> e then round_half_even num (den * 2 ^ nat e)
      else round_half_even (num * 2 ^ nat (- e)) den)"

definition to_double :: "bool \<Rightarrow> nat \<Rightarrow> int \<Rightarrow> double" where
  "to_double neg d ex =
     (if d = 0 then DFinite neg 0 0
      else
        (let num = (if 0 \<le> ex then d * 10 ^ nat ex else d);
             den = (if 0 \<le> ex then 1 else 10 ^ nat (- ex));
             e = max (floor_log2 num den - 52) (- 1074);
             m = scaled_round num den e
         in if m = 0 then DFinite neg 0 0
            else if m = 2 ^ 53 then (if 971 < e + 1 then DInf neg else DFinite neg (2 ^ 52) (e + 1))
            else if 971 < e then DInf neg
            else DFinite neg m e))"

definition digits_value :: "string \<Rightarrow> nat" where
  "digits_value ds = foldl (\<lambda>acc c. 10 * acc + (of_char c - 48)) 0 ds"

text \<open>The exponent after \<open>e\<close> or \<open>E\<close>, with its sign.\<close>

definition exponent_value :: "string \<Rightarrow> int" where
  "exponent_value s =
     (case s of
        [] \<Rightarrow> 0
      | c # cs \<Rightarrow>
          if c = CHR ''-'' then - int (digits_value cs)
          else if c = CHR ''+'' then int (digits_value cs)
          else int (digits_value (c # cs)))"

text \<open>The double of a lexeme of the number grammar: sign, digits, fraction, exponent.\<close>

definition number_of_lexeme :: "string \<Rightarrow> double" where
  "number_of_lexeme s =
     (let neg = starts_with s ''-'';
          s1 = (if neg then drop 1 s else s);
          ip = takeWhile is_digit s1;
          r1 = dropWhile is_digit s1;
          fp = (case r1 of [] \<Rightarrow> [] | c # cs \<Rightarrow> if c = CHR ''.'' then takeWhile is_digit cs else []);
          r2 = (case r1 of [] \<Rightarrow> [] | c # cs \<Rightarrow> if c = CHR ''.'' then dropWhile is_digit cs else c # cs);
          ex = (case r2 of [] \<Rightarrow> 0 | c # cs \<Rightarrow> exponent_value cs)
      in to_double neg (digits_value (ip @ fp)) (ex - int (length fp)))"

definition is_num_char :: "char \<Rightarrow> bool" where
  "is_num_char c =
     (is_digit c \<or> c = CHR ''-'' \<or> c = CHR ''+'' \<or> c = CHR ''.'' \<or> c = CHR ''e'' \<or> c = CHR ''E'')"

definition emit :: "token \<Rightarrow> token list option \<Rightarrow> token list option" where
  "emit t r = (case r of None \<Rightarrow> None | Some ts \<Rightarrow> Some (t # ts))"

text \<open>
  The scanner. A run of number characters is one lexeme, checked against the number
  grammar; two numbers side by side are never valid JSON, so nothing is lost by reading
  the longest run.
\<close>

function tokenize :: "string \<Rightarrow> token list option" where
  "tokenize [] = Some []"
| "tokenize (c # cs) =
     (if is_json_ws c then tokenize cs
      else if c = CHR ''{'' then emit TLBrace (tokenize cs)
      else if c = CHR ''}'' then emit TRBrace (tokenize cs)
      else if c = CHR ''['' then emit TLBracket (tokenize cs)
      else if c = CHR '']'' then emit TRBracket (tokenize cs)
      else if c = CHR '','' then emit TComma (tokenize cs)
      else if c = CHR '':'' then emit TColon (tokenize cs)
      else if c = CHR 0x22 then
        (case lex_string [] cs of
           None \<Rightarrow> None
         | Some (u, r) \<Rightarrow> emit (TStr u) (tokenize r))
      else if c = CHR ''-'' \<or> is_digit c then
        (if is_json_number (takeWhile is_num_char (c # cs))
         then emit (TNum (number_of_lexeme (takeWhile is_num_char (c # cs))))
                (tokenize (dropWhile is_num_char cs))
         else None)
      else if starts_with (c # cs) ''true'' then emit TTrue (tokenize (drop 3 cs))
      else if starts_with (c # cs) ''false'' then emit TFalse (tokenize (drop 4 cs))
      else if starts_with (c # cs) ''null'' then emit TNull (tokenize (drop 3 cs))
      else None)"
  by pat_completeness auto
termination
  apply (relation "measure length")
  apply (simp_all add: le_imp_less_Suc length_dropWhile_le)
  apply (fastforce dest: lex_string_shorter)
  done

text \<open>
  The parser is a stack machine over the tokens: a frame for every array and object that
  is still open, and the kind of token expected next.
\<close>

datatype frame = ArrF "json list" | ObjF "(ustring \<times> json) list" | KeyF ustring

datatype pstate = PValue | PValueOrClose | PKeyOrClose | PKey | PColon | PSep | PDone json

text \<open>
  An array index: the decimal digits, without a leading zero, of a number below
  \<open>2 ^ 32 - 1\<close>.
\<close>

definition index_value :: "ustring \<Rightarrow> nat" where
  "index_value k = foldl (\<lambda>acc c. 10 * acc + (c - 48)) 0 k"

definition is_array_index :: "ustring \<Rightarrow> bool" where
  "is_array_index k =
     (k \<noteq> [] \<and> list_all (\<lambda>c. 48 \<le> c \<and> c \<le> 57) k \<and> (k = [48] \<or> take 1 k \<noteq> [48])
      \<and> index_value k < 4294967295)"

fun replace_value :: "ustring \<Rightarrow> json \<Rightarrow> (ustring \<times> json) list \<Rightarrow> (ustring \<times> json) list" where
  "replace_value k v [] = []"
| "replace_value k v ((k', v') # kvs) =
     (if k = k' then (k', v) # kvs else (k', v') # replace_value k v kvs)"

fun insert_index :: "ustring \<Rightarrow> json \<Rightarrow> (ustring \<times> json) list \<Rightarrow> (ustring \<times> json) list" where
  "insert_index k v [] = [(k, v)]"
| "insert_index k v ((k', v') # kvs) =
     (if is_array_index k' \<and> index_value k' < index_value k then (k', v') # insert_index k v kvs
      else (k, v) # (k', v') # kvs)"

definition set_property :: "ustring \<Rightarrow> json \<Rightarrow> (ustring \<times> json) list \<Rightarrow> (ustring \<times> json) list" where
  "set_property k v kvs =
     (if k \<in> fst ` set kvs then replace_value k v kvs
      else if is_array_index k then insert_index k v kvs
      else kvs @ [(k, v)])"

text \<open>A finished value goes to the innermost open frame, or is the result.\<close>

definition deliver :: "json \<Rightarrow> frame list \<Rightarrow> (pstate \<times> frame list) option" where
  "deliver v st =
     (case st of
        [] \<Rightarrow> Some (PDone v, [])
      | ArrF els # st' \<Rightarrow> Some (PSep, ArrF (els @ [v]) # st')
      | KeyF k # ObjF kvs # st' \<Rightarrow> Some (PSep, ObjF (set_property k v kvs) # st')
      | _ \<Rightarrow> None)"

definition close_array :: "frame list \<Rightarrow> (pstate \<times> frame list) option" where
  "close_array st = (case st of ArrF els # st' \<Rightarrow> deliver (JArray els) st' | _ \<Rightarrow> None)"

definition close_object :: "frame list \<Rightarrow> (pstate \<times> frame list) option" where
  "close_object st = (case st of ObjF kvs # st' \<Rightarrow> deliver (JObject kvs) st' | _ \<Rightarrow> None)"

definition begin_value :: "token \<Rightarrow> frame list \<Rightarrow> (pstate \<times> frame list) option" where
  "begin_value t st =
     (case t of
        TLBrace \<Rightarrow> Some (PKeyOrClose, ObjF [] # st)
      | TLBracket \<Rightarrow> Some (PValueOrClose, ArrF [] # st)
      | TStr u \<Rightarrow> deliver (JString u) st
      | TNum n \<Rightarrow> deliver (JNumber n) st
      | TTrue \<Rightarrow> deliver (JBool True) st
      | TFalse \<Rightarrow> deliver (JBool False) st
      | TNull \<Rightarrow> deliver JNull st
      | _ \<Rightarrow> None)"

definition begin_key :: "token \<Rightarrow> frame list \<Rightarrow> (pstate \<times> frame list) option" where
  "begin_key t st = (case t of TStr k \<Rightarrow> Some (PColon, KeyF k # st) | _ \<Rightarrow> None)"

definition pstep :: "pstate \<Rightarrow> frame list \<Rightarrow> token \<Rightarrow> (pstate \<times> frame list) option" where
  "pstep p st t =
     (case p of
        PValue \<Rightarrow> begin_value t st
      | PValueOrClose \<Rightarrow> if t = TRBracket then close_array st else begin_value t st
      | PKeyOrClose \<Rightarrow> if t = TRBrace then close_object st else begin_key t st
      | PKey \<Rightarrow> begin_key t st
      | PColon \<Rightarrow> if t = TColon then Some (PValue, st) else None
      | PSep \<Rightarrow>
          (if t = TComma then
             (case st of
                ArrF els # st' \<Rightarrow> Some (PValue, st)
              | ObjF kvs # st' \<Rightarrow> Some (PKey, st)
              | _ \<Rightarrow> None)
           else if t = TRBracket then close_array st
           else if t = TRBrace then close_object st
           else None)
      | PDone v \<Rightarrow> None)"

fun run :: "pstate \<Rightarrow> frame list \<Rightarrow> token list \<Rightarrow> (pstate \<times> frame list) option" where
  "run p st [] = Some (p, st)"
| "run p st (t # ts) = (case pstep p st t of None \<Rightarrow> None | Some (p', st') \<Rightarrow> run p' st' ts)"

datatype js_error = SyntaxError | TypeError | Error string

text \<open>\<open>JSON.parse(text)\<close>: the value, or the \<open>SyntaxError\<close> it throws.\<close>

definition JSON_parse :: "string \<Rightarrow> js_error + json" where
  "JSON_parse s =
     (case tokenize s of
        None \<Rightarrow> Inl SyntaxError
      | Some ts \<Rightarrow>
          (case run PValue [] ts of
             Some (PDone v, []) \<Rightarrow> Inr v
           | _ \<Rightarrow> Inl SyntaxError))"


section \<open>The generate route: configuration and helpers\<close>

definition MAX_RETRIES :: nat where
  "MAX_RETRIES = 3"

definition DELAY_MS :: nat where
  "DELAY_MS = 2500"

text \<open>
  \<open>getPdfText\<close>: the text the PDF module extracts from the buffer. The module is a
  parameter (\<open>None\<close> when loading it or parsing raises); the helper catches that and
  returns the empty text.
\<close>

definition getPdfText :: "(string \<Rightarrow> string option) \<Rightarrow> string \<Rightarrow> string" where
  "getPdfText parser buffer = (case parser buffer of None \<Rightarrow> [] | Some t \<Rightarrow> t)"

text \<open>
  \<open>getYoutubeVideoId\<close> matches
  \<open>/^.*(youtu.be\/|v\/|u\/\w\/|embed\/|watch\?v=|&v=)([^#&?]*).*/\<close>.
  The leading \<open>.*\<close> is greedy and does not cross a line terminator, so the first group
  is taken at the right-most position that a prefix without line terminators reaches; the
  dot of \<open>youtu.be\<close> is unescaped and stands for any such character. What follows
  the second group always matches, so the second group is the longest run without
  \<open>#\<close>, \<open>&\<close> and \<open>?\<close>.
\<close>

definition is_line_terminator :: "char \<Rightarrow> bool" where
  "is_line_terminator c = (c = CHR 0x0A \<or> c = CHR 0x0D)"

definition is_word_char :: "char \<Rightarrow> bool" where
  "is_word_char c =
     (let n = (of_char c :: nat) in
      (48 \<le> n \<and> n \<le> 57) \<or> (65 \<le> n \<and> n \<le> 90) \<or> (97 \<le> n \<and> n \<le> 122) \<or> n = 95)"

text \<open>The first group at the head of the text: what is left after it.\<close>

definition group1 :: "string \<Rightarrow> string option" where
  "group1 s =
     (if starts_with s ''youtu''
         \<and> (case drop 5 s of [] \<Rightarrow> False | d # r \<Rightarrow> \<not> is_line_terminator d \<and> starts_with r ''be/'')
      then Some (drop 9 s)
      else if starts_with s ''v/'' then Some (drop 2 s)
      else if starts_with s ''u/''
         \<and> (case drop 2 s of [] \<Rightarrow> False | w # r \<Rightarrow> is_word_char w \<and> starts_with r ''/'')
      then Some (drop 4 s)
      else if starts_with s ''embed/'' then Some (drop 6 s)
      else if starts_with s ''watch?v='' then Some (drop 8 s)
      else if starts_with s ''&v='' then Some (drop 3 s)
      else None)"

fun last_match :: "string \<Rightarrow> string option" where
  "last_match [] = group1 []"
| "last_match (c # cs) =
     (case (if is_line_terminator c then None else last_match cs) of
        Some r \<Rightarrow> Some r
      | None \<Rightarrow> group1 (c # cs))"

definition getYoutubeVideoId :: "string \<Rightarrow> string option" where
  "getYoutubeVideoId url =
     (case last_match url of
        None \<Rightarrow> None
      | Some r \<Rightarrow>
          (let g = takeWhile (\<lambda>c. c \<noteq> CHR ''#'' \<and> c \<noteq> CHR ''&'' \<and> c \<noteq> CHR ''?'') r
           in if length g = 11 then Some g else None))"

text \<open>\<open>formatTimestamp\<close>, for an offset of whole seconds.\<close>

definition formatTimestamp :: "nat \<Rightarrow> string" where
  "formatTimestamp seconds =
     ''['' @ decimal (seconds div 60) @ '':'' @ padStart2 (decimal (seconds mod 60)) @ '']''"

text \<open>\<open>parts.join(sep)\<close>.\<close>

fun join_with :: "string \<Rightarrow> string list \<Rightarrow> string" where
  "join_with sep [] = []"
| "join_with sep [x] = x"
| "join_with sep (x # y # ys) = x @ sep @ join_with sep (y # ys)"

section \<open>The generate route: request, responses and the provider\<close>

text \<open>
  The request body with its fields at the types the page sends them: absent fields are
  \<open>None\<close>. \<open>srcType\<close> is the field \<open>type\<close> and \<open>contextText\<close> the field \<open>context\<close>;
  \<open>userAnswers\<close> holds the text \<open>JSON.stringify\<close> gives for the submitted answers.
\<close>

record app_settings =
  language :: "string option"
  difficulty :: "string option"

record gen_body =
  action :: "string option"
  topic :: "string option"
  fileData :: "string option"
  mimeType :: "string option"
  srcType :: "string option"
  settings :: "app_settings option"
  nodeLabel :: "string option"
  contextText :: "string option"
  userAnswers :: "string option"

datatype part = TextPart string | InlineData string string

datatype resp_body = ErrorBody string | JsonBody json

record http_response =
  status :: nat
  body :: resp_body

definition error_response :: "string \<Rightarrow> nat \<Rightarrow> http_response" where
  "error_response msg code = \<lparr>status = code, body = ErrorBody msg\<rparr>"

text \<open>What the model listing call can give back.\<close>

record model_entry =
  name :: "string option"
  supportedGenerationMethods :: "string list option"

datatype models_field = NoModels | NotAnArray | ModelList "model_entry list"

datatype listing_outcome =
    ListFetchFails
  | ListNotJson
  | ListNull
  | Listing models_field

text \<open>
  What one \<open>generateContent\<close> call can give back: the fetch or the decoding of its body
  raises; a response that is not \<open>ok\<close>, with \<open>data.error?.code\<close> and
  \<open>data.error?.message\<close>; an \<open>ok\<close> response, with the text of the first part of the
  first candidate when there is one.
\<close>

datatype attempt_outcome =
    Throws js_error
  | NotOk "nat option" "string option"
  | Ok "string option"

text \<open>The calls the handler makes on the outside world, in order.\<close>

datatype call = ListCall string | GenerateCall nat string "part list" | Wait nat

fun is_generate :: "call \<Rightarrow> bool" where
  "is_generate (GenerateCall i url parts) = True"
| "is_generate c = False"

definition attempts :: "call list \<Rightarrow> nat" where
  "attempts tr = length (filter is_generate tr)"

definition prepend :: "call list \<Rightarrow> call list \<times> 'a \<Rightarrow> call list \<times> 'a" where
  "prepend cs r = (cs @ fst r, snd r)"

record gen_env =
  env_GEMINI_API_KEY :: "string option"
  request_json :: "gen_body option"
  list_models :: "string \<Rightarrow> listing_outcome"
  fetchTranscript :: "string \<Rightarrow> (nat \<times> string) list option"
  pdf_parse :: "string \<Rightarrow> string option"
  generateContent :: "string \<Rightarrow> part list \<Rightarrow> nat \<Rightarrow> attempt_outcome"

section \<open>The generate route: model discovery\<close>

definition DEFAULT_MODEL :: string where
  "DEFAULT_MODEL = ''gemini-1.5-flash''"

text \<open>The callback of \<open>find\<close>: reading \<open>includes\<close> of a missing name raises.\<close>

definition acceptable :: "model_entry \<Rightarrow> js_error + bool" where
  "acceptable m =
     (case name m of
        None \<Rightarrow> Inl TypeError
      | Some n \<Rightarrow>
          Inr (includes_str n ''gemini''
               \<and> (case supportedGenerationMethods m of
                     None \<Rightarrow> False
                   | Some ms \<Rightarrow> ''generateContent'' \<in> set ms)
               \<and> (includes_str n ''flash'' \<or> includes_str n ''pro'' \<or> includes_str n ''1.5'')))"

text \<open>
  \<open>models.find(pred)\<close>: the name of the first entry the callback accepts; what the
  callback raises on the way ends the search.
\<close>

fun find_model :: "(model_entry \<Rightarrow> js_error + bool) \<Rightarrow> model_entry list \<Rightarrow> js_error + string option" where
  "find_model pred [] = Inr None"
| "find_model pred (m # ms) =
     (case pred m of
        Inl x \<Rightarrow> Inl x
      | Inr ok \<Rightarrow> if ok then Inr (name m) else find_model pred ms)"

text \<open>
  The body of the \<open>try\<close> block: the model id it assigns, if it assigns one. The
  callback is a parameter, since the chat route runs the same block with its own.
\<close>

definition discoverModel ::
  "(model_entry \<Rightarrow> js_error + bool) \<Rightarrow> listing_outcome \<Rightarrow> js_error + string option" where
  "discoverModel pred l =
     (case l of
        ListFetchFails \<Rightarrow> Inl (Error ''fetch failed'')
      | ListNotJson \<Rightarrow> Inl SyntaxError
      | ListNull \<Rightarrow> Inl TypeError
      | Listing NoModels \<Rightarrow> Inr None
      | Listing NotAnArray \<Rightarrow> Inl TypeError
      | Listing (ModelList ms) \<Rightarrow>
          (case find_model pred ms of
             Inl x \<Rightarrow> Inl x
           | Inr None \<Rightarrow> Inr None
           | Inr (Some n) \<Rightarrow> Inr (Some (replace_first ''models/'' [] n))))"

text \<open>
  The whole step: one listing call; \<open>selectedModel\<close> starts as the default and the
  \<open>catch\<close> swallows whatever the \<open>try\<close> block raises.
\<close>

definition resolveModel :: "(string \<Rightarrow> listing_outcome) \<Rightarrow> string \<Rightarrow> call list \<times> string" where
  "resolveModel fetch listUrl =
     ([ListCall listUrl],
      (case discoverModel acceptable (fetch listUrl) of
         Inl x \<Rightarrow> DEFAULT_MODEL
       | Inr None \<Rightarrow> DEFAULT_MODEL
       | Inr (Some n) \<Rightarrow> n))"


section \<open>The generate route: prompts\<close>

definition nl :: string where
  "nl = [CHR 0x0A]"

definition indent :: "nat \<Rightarrow> string" where
  "indent n = replicate n CHR '' ''"

text \<open>
  A template literal of the handler: a line break, its lines at the given indentation, and
  the indentation of the closing backquote.
\<close>

definition template :: "nat \<Rightarrow> string list \<Rightarrow> string" where
  "template n ls = nl @ concat (map (\<lambda>l. l @ nl) ls) @ indent n"

text \<open>\<open>context ? context.slice(0, n) : other\<close>.\<close>

definition context_or :: "nat \<Rightarrow> string option \<Rightarrow> string \<Rightarrow> string" where
  "context_or n c other = (if truthy c then take n (interp c) else other)"

definition lang_of :: "gen_body \<Rightarrow> string" where
  "lang_of b = js_or (case settings b of None \<Rightarrow> None | Some st \<Rightarrow> language st) ''english''"

definition difficulty_of :: "gen_body \<Rightarrow> string" where
  "difficulty_of b = js_or (case settings b of None \<Rightarrow> None | Some st \<Rightarrow> difficulty st) ''Normal''"

text \<open>The text each action puts into the \<open>Context:\<close> line of its prompt.\<close>

definition expandContext :: "gen_body \<Rightarrow> string" where
  "expandContext b = context_or 3000 (contextText b) (interp (topic b))"

definition examContext :: "gen_body \<Rightarrow> string" where
  "examContext b = context_or 10000 (contextText b) (interp (topic b))"

definition gradeContext :: "gen_body \<Rightarrow> string" where
  "gradeContext b = context_or 5000 (contextText b) []"

definition expandPrompt :: "gen_body \<Rightarrow> string" where
  "expandPrompt b =
     template 12
       [indent 16 @ ''You are a helper for a Mind Map tool.'',
        indent 16 @ ''Task: Generate 3-5 sub-concepts related to the node \"'' @ interp (nodeLabel b) @ ''\".'',
        indent 16 @ ''Context: \"'' @ expandContext b @ ''\"'',
        indent 16 @ ''Language: '' @ lang_of b,
        indent 16 @ ''Return ONLY raw JSON: { \"newEdges\": [{\"source\": \"'' @ interp (nodeLabel b)
          @ ''\", \"target\": \"SubConcept1\"}, ...] }'']"

definition examPrompt :: "gen_body \<Rightarrow> string" where
  "examPrompt b =
     template 12
       [indent 16 @ ''Create a challenging exam.'',
        indent 16 @ ''Context: \"'' @ examContext b @ ''\"'',
        indent 16 @ ''Language: '' @ lang_of b,
        indent 16 @ ''Difficulty: '' @ difficulty_of b,
        indent 16 @ ''Requirements: 3 MCQ, 2 Short Answer.'',
        indent 16 @ ''Return ONLY raw JSON:'',
        indent 16 @ ''{ \"exam\": [ {\"id\": 1, \"type\": \"mcq\", \"question\": \"...\", \"options\": [\"A\",\"B\"], \"correct\": \"A\"}, {\"id\": 2, \"type\": \"text\", \"question\": \"...\"} ] }'']"

definition gradePrompt :: "gen_body \<Rightarrow> string" where
  "gradePrompt b =
     template 12
       [indent 16 @ ''Grade this student.'',
        indent 16 @ ''Context: \"'' @ gradeContext b @ ''\"'',
        indent 16 @ ''Answers: '' @ interp (userAnswers b),
        indent 16 @ ''Return ONLY raw JSON:'',
        indent 16 @ ''{ \"score\": \"85/100\", \"feedback\": \"...\", \"corrections\": [{\"questionId\": 1, \"status\": \"Correct\", \"remark\": \"...\"}] }'']"

definition systemInstruction :: "gen_body \<Rightarrow> string" where
  "systemInstruction b =
     template 12
       [indent 16 @ ''Act as an expert AI Tutor.'',
        indent 16 @ ''Language: '' @ lang_of b,
        indent 16 @ ''Difficulty: '' @ difficulty_of b,
        indent 16 @ ''If timestamps exist, use them.'',
        indent 16 @ ''Return ONLY raw JSON:'',
        indent 16 @ ''{'',
        indent 20 @ ''\"title\": \"String\", \"summary\": \"Markdown\", \"keyPoints\": [\"String\"],'',
        indent 20 @ ''\"quiz\": [{\"q\": \"String\", \"a\": [\"A\",\"B\"], \"correct\": \"A\"}],'',
        indent 20 @ ''\"flashcards\": [{\"front\": \"String\", \"back\": \"String\"}],'',
        indent 20 @ ''\"mindMapEdges\": [{\"source\": \"String\", \"target\": \"String\"}],'',
        indent 20 @ ''\"stats\": {\"accuracy\": \"String\", \"timeSaved\": \"String\"}'',
        indent 16 @ ''}'']"

text \<open>
  The content of the main action: the parts pushed so far and \<open>contentText\<close>, or the
  response of an early \<open>return\<close>, or the error raised (matching on a missing link).
  The buffer decoded from \<open>fileData\<close> is stood for by the base64 text itself.
\<close>

datatype content_result =
    Content "part list" string
  | ContentReturn http_response
  | ContentRaise js_error

definition transcriptText :: "(nat \<times> string) list \<Rightarrow> string" where
  "transcriptText tr = join_with '' '' (map (\<lambda>(offset, t). formatTimestamp offset @ '' '' @ t) tr)"

definition gatherContent :: "gen_env \<Rightarrow> gen_body \<Rightarrow> content_result" where
  "gatherContent e b =
     (if srcType b = Some ''youtube'' then
        (case topic b of
           None \<Rightarrow> ContentRaise TypeError
         | Some url \<Rightarrow>
             (case getYoutubeVideoId url of
                None \<Rightarrow> ContentReturn (error_response ''Invalid YouTube Link'' 400)
              | Some videoId \<Rightarrow>
                  (case fetchTranscript e videoId of
                     None \<Rightarrow> ContentReturn (error_response ''No captions found.'' 400)
                   | Some tr \<Rightarrow> Content [] (transcriptText tr))))
      else if truthy (fileData b) then
        (if truthy (mimeType b) \<and> starts_with (interp (mimeType b)) ''image/'' then
           Content [InlineData (interp (mimeType b)) (interp (fileData b)),
                    TextPart ''OCR Task: Extract educational content from this image.''] []
         else
           (let contentText = getPdfText (pdf_parse e) (interp (fileData b)) in
            if contentText = [] then ContentReturn (error_response ''Empty PDF.'' 400)
            else Content [] contentText))
      else Content [] (js_or (topic b) []))"

datatype prompt_result =
    Prompt "part list"
  | PromptReturn http_response
  | PromptRaise js_error

text \<open>Step 3 of the handler: the prompt parts for the action.\<close>

definition buildPrompt :: "gen_env \<Rightarrow> gen_body \<Rightarrow> prompt_result" where
  "buildPrompt e b =
     (if action b = Some ''expand'' then Prompt [TextPart (expandPrompt b)]
      else if action b = Some ''exam'' then Prompt [TextPart (examPrompt b)]
      else if action b = Some ''grade'' then Prompt [TextPart (gradePrompt b)]
      else
        (case gatherContent e b of
           ContentRaise x \<Rightarrow> PromptRaise x
         | ContentReturn r \<Rightarrow> PromptReturn r
         | Content parts contentText \<Rightarrow>
             Prompt (TextPart (systemInstruction b)
                     # parts @ (if contentText \<noteq> [] then [TextPart (take 40000 contentText)] else []))))"

section \<open>The generate route: the attempt loop and the handler\<close>

text \<open>\<open>aiText.replace(/```json/g, '').replace(/```/g, '').trim()\<close>.\<close>

definition cleanText :: "string \<Rightarrow> string" where
  "cleanText aiText = trim (remove_all ''```'' (remove_all ''```json'' aiText))"

text \<open>
  The body of the \<open>try\<close> block of one attempt, after the call: it returns a response,
  or waits and goes on to the next attempt (\<open>continue\<close>), or raises.
\<close>

datatype attempt_result = Respond http_response | DelayAndContinue

text \<open>Reading the reply: the empty-reply check, the fence stripping and \<open>JSON.parse\<close>.\<close>

definition parseReply :: "string option \<Rightarrow> js_error + json" where
  "parseReply aiText =
     (if \<not> truthy aiText then Inl (Error ''Empty response'')
      else JSON_parse (cleanText (interp aiText)))"

definition attempt :: "attempt_outcome \<Rightarrow> js_error + attempt_result" where
  "attempt out =
     (case out of
        Throws x \<Rightarrow> Inl x
      | NotOk code msg \<Rightarrow>
          if code = Some 503 then Inr DelayAndContinue
          else Inl (Error (js_or msg ''AI Error''))
      | Ok aiText \<Rightarrow>
          (case parseReply aiText of
             Inl x \<Rightarrow> Inl x
           | Inr v \<Rightarrow> Inr (Respond \<lparr>status = 200, body = JsonBody v\<rparr>)))"

text \<open>
  The loop \<open>for (let i = 1; i <= MAX_RETRIES; i++)\<close> from attempt \<open>i\<close> on: the calls
  made and the response returned. \<open>None\<close> is the loop running out: the handler then
  reaches its end without a \<open>return\<close>.
\<close>

function executeRequest ::
  "(nat \<Rightarrow> attempt_outcome) \<Rightarrow> string \<Rightarrow> part list \<Rightarrow> nat \<Rightarrow> call list \<times> http_response option"
where
  "executeRequest send apiUrl parts i =
     (if i \<le> MAX_RETRIES then
        (case attempt (send i) of
           Inr (Respond r) \<Rightarrow> ([GenerateCall i apiUrl parts], Some r)
         | Inr DelayAndContinue \<Rightarrow>
             prepend [GenerateCall i apiUrl parts, Wait DELAY_MS]
               (executeRequest send apiUrl parts (Suc i))
         | Inl err \<Rightarrow>
             if i = MAX_RETRIES
             then ([GenerateCall i apiUrl parts],
                   Some (error_response ''AI Service Unavailable. Try again.'' 503))
             else prepend [GenerateCall i apiUrl parts]
                    (executeRequest send apiUrl parts (Suc i)))
      else ([], None))"
  by pat_completeness auto
termination
  by (relation "measure (\<lambda>(send, apiUrl, parts, i). Suc MAX_RETRIES - i)") auto

text \<open>
  The key the handler falls back on when the environment has none. The source holds a
  39-character literal; its characters after the prefix are masked here, and nothing
  below depends on them.
\<close>

definition FALLBACK_KEY :: string where
  "FALLBACK_KEY = ''AIza'' @ replicate 35 CHR ''*''"

definition API_BASE :: string where
  "API_BASE = ''https://generativelanguage.googleapis.com/v1beta/models''"

text \<open>The constants the handler computes on its way: the key, the two URLs, the model.\<close>

definition apiKey :: "gen_env \<Rightarrow> string" where
  "apiKey e = js_or (env_GEMINI_API_KEY e) FALLBACK_KEY"

definition listUrl :: "gen_env \<Rightarrow> string" where
  "listUrl e = API_BASE @ ''?key='' @ apiKey e"

definition selectedModel :: "gen_env \<Rightarrow> string" where
  "selectedModel e = snd (resolveModel (list_models e) (listUrl e))"

definition apiUrl :: "gen_env \<Rightarrow> string" where
  "apiUrl e = API_BASE @ ''/'' @ selectedModel e @ '':generateContent?key='' @ apiKey e"

text \<open>
  \<open>POST\<close>: the calls made and the response. Reading the request body comes first, and
  what it raises reaches the outer \<open>catch\<close>; so does what building the prompt raises,
  after the listing call.
\<close>

definition POST :: "gen_env \<Rightarrow> call list \<times> http_response option" where
  "POST e =
     (case request_json e of
        None \<Rightarrow> ([], Some (error_response ''Internal Server Error'' 500))
      | Some b \<Rightarrow>
          if apiKey e = [] then ([], Some (error_response ''API Key missing.'' 401))
          else
            (case buildPrompt e b of
               PromptRaise x \<Rightarrow>
                 (fst (resolveModel (list_models e) (listUrl e)),
                  Some (error_response ''Internal Server Error'' 500))
             | PromptReturn r \<Rightarrow> (fst (resolveModel (list_models e) (listUrl e)), Some r)
             | Prompt promptParts \<Rightarrow>
                 prepend (fst (resolveModel (list_models e) (listUrl e)))
                   (executeRequest (generateContent e (apiUrl e) promptParts)
                      (apiUrl e) promptParts 1)))"


section \<open>The chat route\<close>

record ChatMessage =
  role :: string
  content :: string

record chat_body =
  messages :: "ChatMessage list option"
  chatContext :: "string option"
  chatSettings :: "app_settings option"

datatype chat_outcome =
    ChatThrows js_error
  | ChatNotOk "string option"
  | ChatOk "string option"

record chat_env =
  chat_GEMINI_API_KEY :: "string option"
  chat_request_json :: "chat_body option"
  chat_list_models :: "string \<Rightarrow> listing_outcome"
  chat_generateContent :: "string \<Rightarrow> (string \<times> string) list \<Rightarrow> chat_outcome"

definition chat_acceptable :: "model_entry \<Rightarrow> js_error + bool" where
  "chat_acceptable m =
     (case name m of
        None \<Rightarrow> Inl TypeError
      | Some n \<Rightarrow>
          Inr (includes_str n ''gemini''
               \<and> (case supportedGenerationMethods m of
                     None \<Rightarrow> False
                   | Some ms \<Rightarrow> ''generateContent'' \<in> set ms)
               \<and> (includes_str n ''flash'' \<or> includes_str n ''pro'')))"

text \<open>\<open>context ? context.slice(0, 25000) : 'No specific context provided.'\<close>.\<close>

definition groundingContext :: "string option \<Rightarrow> string" where
  "groundingContext c = context_or 25000 c ''No specific context provided.''"

definition chatSystemInstruction :: "chat_body \<Rightarrow> string" where
  "chatSystemInstruction b =
     template 8
       [indent 12 @ ''You are a dedicated AI Tutor for this specific lesson.'',
        indent 12,
        indent 12 @ ''SOURCE MATERIAL (CONTEXT):'',
        indent 12 @ ''\"\"\"'',
        indent 12 @ groundingContext (chatContext b),
        indent 12 @ ''\"\"\"'',
        indent 12,
        indent 12 @ ''INSTRUCTIONS:'',
        indent 12 @ ''1. Answer the user'' @ [CHR 0x27] @ ''s questions **exclusively** based on the SOURCE MATERIAL provided above.'',
        indent 12 @ ''2. If the answer is in the source material (even if it'' @ [CHR 0x27] @ ''s a personal detail like \"Does he have children?\"), ANSWER IT directly.'',
        indent 12 @ ''3. Do NOT act as a general assistant. Act as an expert on THIS specific content.'',
        indent 12 @ ''4. Language: ''
          @ js_or (case chatSettings b of None \<Rightarrow> None | Some st \<Rightarrow> language st) ''english'']"

definition formattedHistory :: "ChatMessage list \<Rightarrow> (string \<times> string) list" where
  "formattedHistory ms = map (\<lambda>msg. (if role msg = ''ai'' then ''model'' else ''user'', content msg)) ms"

definition chatContents :: "chat_body \<Rightarrow> ChatMessage list \<Rightarrow> (string \<times> string) list" where
  "chatContents b ms =
     (''user'', chatSystemInstruction b)
     # (''model'', ''Understood. I will answer based strictly on the provided source material.'')
     # formattedHistory ms"

definition chat_apiKey :: "chat_env \<Rightarrow> string" where
  "chat_apiKey e = js_or (chat_GEMINI_API_KEY e) FALLBACK_KEY"

definition chat_selectedModel :: "chat_env \<Rightarrow> string" where
  "chat_selectedModel e =
     (case discoverModel chat_acceptable (chat_list_models e (API_BASE @ ''?key='' @ chat_apiKey e)) of
        Inl x \<Rightarrow> DEFAULT_MODEL
      | Inr None \<Rightarrow> DEFAULT_MODEL
      | Inr (Some n) \<Rightarrow> n)"

text \<open>
  The chat handler's response. A missing \<open>reply\<close> leaves the property out of the
  serialised body.
\<close>

definition chat_POST :: "chat_env \<Rightarrow> http_response" where
  "chat_POST e =
     (case chat_request_json e of
        None \<Rightarrow> error_response ''Internal Server Error'' 500
      | Some b \<Rightarrow>
          if chat_apiKey e = [] then error_response ''API Key is missing.'' 401
          else
            (case messages b of
               None \<Rightarrow> error_response ''Internal Server Error'' 500
             | Some ms \<Rightarrow>
                 (case chat_generateContent e
                         (API_BASE @ ''/'' @ chat_selectedModel e @ '':generateContent?key='' @ chat_apiKey e)
                         (chatContents b ms) of
                    ChatThrows x \<Rightarrow> error_response ''Internal Server Error'' 500
                  | ChatNotOk msg \<Rightarrow> error_response (js_or msg ''Chat failed'') 500
                  | ChatOk reply \<Rightarrow>
                      \<lparr>status = 200,
                       body = JsonBody (JObject (case reply of
                                                   None \<Rightarrow> []
                                                 | Some r \<Rightarrow> [(js ''reply'', JString (js r))]))\<rparr>)))"


section \<open>The page: study data, the mind map and the session\<close>

record Flashcard =
  front :: string
  backText :: string

record QuizItem =
  quiz_q :: string
  quiz_a :: "string list"
  quiz_correct :: string

record MindMapEdgeRaw =
  source :: string
  target :: string

datatype question_type = Mcq | FreeText

record ExamQuestion =
  qid :: nat
  qtype :: question_type
  question :: string
  options :: "string list option"
  correct :: "string option"

record Correction =
  questionId :: nat
  verdict :: string
  remark :: string

record GradingResult =
  score :: string
  feedback :: string
  corrections :: "Correction list"

text \<open>The study bundle; the two fields of its \<open>stats\<close> object are kept side by side.\<close>

record ResultData =
  title :: string
  summary :: string
  keyPoints :: "string list"
  accuracy :: string
  timeSaved :: string
  quiz :: "QuizItem list"
  flashcards :: "Flashcard list"
  mindMapEdges :: "MindMapEdgeRaw list"

text \<open>
  A node and an edge of the rendered graph. Of a node's style only what changes is kept:
  the first node is built with the green border and the bold face, and a click on a node
  sets its border colour and style (dashed green while the expansion runs, solid grey
  when it failed).
\<close>

datatype node_border = AsBuilt | DashedGreen | SolidGrey

record FlowNode =
  node_id :: string
  node_label :: string
  position :: "real \<times> real"
  highlighted :: bool
  border :: node_border

record FlowEdge =
  edge_id :: string
  edge_source :: string
  edge_target :: string

text \<open>
  The layout library's graph is one object of the module, shared by every call: node
  ids and edges once set stay in it. \<open>setNode\<close> and \<open>setEdge\<close> add what is new;
  \<open>setEdge\<close> also adds the end points it does not know.
\<close>

record dagre_graph =
  g_nodes :: "string list"
  g_edges :: "(string \<times> string) list"

definition add_unique :: "'a \<Rightarrow> 'a list \<Rightarrow> 'a list" where
  "add_unique x xs = (if x \<in> set xs then xs else xs @ [x])"

definition setNode :: "string \<Rightarrow> dagre_graph \<Rightarrow> dagre_graph" where
  "setNode v g = g\<lparr>g_nodes := add_unique v (g_nodes g)\<rparr>"

definition setEdge :: "string \<Rightarrow> string \<Rightarrow> dagre_graph \<Rightarrow> dagre_graph" where
  "setEdge v w g =
     g\<lparr>g_nodes := add_unique w (add_unique v (g_nodes g)),
       g_edges := add_unique (v, w) (g_edges g)\<rparr>"

definition nodeWidth :: real where
  "nodeWidth = 180"

definition nodeHeight :: real where
  "nodeHeight = 60"

text \<open>
  The layout algorithm of the library is a parameter: run on a graph, it gives the
  centre of every node id; or the layout, or the reading of a centre after it, raises
  (the library does for some graphs, such as one with a node id that names a property
  every object has).
\<close>

type_synonym layout = "dagre_graph \<Rightarrow> js_error + (string \<Rightarrow> real \<times> real)"

text \<open>
  \<open>getLayoutedElements\<close>: the library's graph after the call, and the positioned nodes
  with the edges, or the error the layout raised. The nodes and edges are set in the
  library's graph before the layout runs, so they stay there when it raises.
\<close>

definition getLayoutedElements ::
  "layout \<Rightarrow> dagre_graph \<Rightarrow> FlowNode list \<Rightarrow> FlowEdge list
     \<Rightarrow> dagre_graph \<times> (js_error + FlowNode list \<times> FlowEdge list)" where
  "getLayoutedElements lay g ns es =
     (let g1 = foldl (\<lambda>gr n. setNode (node_id n) gr) g ns;
          g2 = foldl (\<lambda>gr ed. setEdge (edge_source ed) (edge_target ed) gr) g1 es
      in (g2,
          case lay g2 of
            Inl x \<Rightarrow> Inl x
          | Inr centre \<Rightarrow>
              Inr (map (\<lambda>n. n\<lparr>position := (fst (centre (node_id n)) - nodeWidth / 2,
                                           snd (centre (node_id n)) - nodeHeight / 2)\<rparr>) ns,
                   es)))"

text \<open>\<open>label.replace(/\s+/g, '_').toLowerCase()\<close>.\<close>

definition normalize_label :: "string \<Rightarrow> string" where
  "normalize_label l = toLowerCase (underscore_spaces l)"

text \<open>
  The \<open>Set\<close> of labels, in insertion order: every edge adds its source, then its
  target, and a label already in the set (the same text, character by character) is not
  added again.
\<close>

definition uniqueNodes :: "MindMapEdgeRaw list \<Rightarrow> string list" where
  "uniqueNodes rawEdges = foldl (\<lambda>acc ed. add_unique (target ed) (add_unique (source ed) acc)) [] rawEdges"

definition newNodes :: "MindMapEdgeRaw list \<Rightarrow> FlowNode list" where
  "newNodes rawEdges =
     map (\<lambda>(l, i). \<lparr>node_id = normalize_label l, node_label = l, position = (0, 0),
                     highlighted = (i = 0), border = AsBuilt\<rparr>)
       (zip (uniqueNodes rawEdges) [0 ..< length (uniqueNodes rawEdges)])"

definition newEdges :: "MindMapEdgeRaw list \<Rightarrow> FlowEdge list" where
  "newEdges rawEdges =
     map (\<lambda>(ed, i). \<lparr>edge_id = ''e'' @ decimal i, edge_source = normalize_label (source ed),
                      edge_target = normalize_label (target ed)\<rparr>)
       (zip rawEdges [0 ..< length rawEdges])"

text \<open>
  What \<open>processMindMapData\<close> builds: the library's graph, and the nodes and the edges
  unless the layout raised.
\<close>

definition buildGraph ::
  "layout \<Rightarrow> dagre_graph \<Rightarrow> MindMapEdgeRaw list
     \<Rightarrow> dagre_graph \<times> (js_error + FlowNode list \<times> FlowEdge list)" where
  "buildGraph lay g rawEdges = getLayoutedElements lay g (newNodes rawEdges) (newEdges rawEdges)"

text \<open>
  The state of the page component that the handlers below read and write, with the
  things outside it they touch: the layout library's graph, the stored copy of the result
  (\<open>localStorage\<close>), speech output (whether the browser has it, and whether it is
  speaking) and the toasts shown.
\<close>

record session =
  loading :: bool
  errorText :: "string option"
  result :: "ResultData option"
  topicText :: string
  uploadedFile :: "(string \<times> string) option"
  hasAnimated :: bool
  chatMessages :: "ChatMessage list"
  isExamMode :: bool
  examQuestions :: "ExamQuestion list"
  examAnswers :: "nat \<rightharpoonup> string"
  gradingResult :: "GradingResult option"
  selectedAnswers :: "nat \<rightharpoonup> string"
  flippedCards :: "nat \<rightharpoonup> bool"
  nodes :: "FlowNode list"
  edges :: "FlowEdge list"
  dagreGraph :: dagre_graph
  storedResult :: "ResultData option"
  speechAvailable :: bool
  speaking :: bool
  toasts :: "string list"

text \<open>
  \<open>processMindMapData\<close>: the error it raised, if any, and the session after it. When
  the layout raises, \<open>setNodes\<close> and \<open>setEdges\<close> are not reached.
\<close>

definition processMindMapData :: "layout \<Rightarrow> MindMapEdgeRaw list \<Rightarrow> session \<Rightarrow> js_error option \<times> session" where
  "processMindMapData lay rawEdges s =
     (case buildGraph lay (dagreGraph s) rawEdges of
        (g, Inl x) \<Rightarrow> (Some x, s\<lparr>dagreGraph := g\<rparr>)
      | (g, Inr (ns, es)) \<Rightarrow> (None, s\<lparr>nodes := ns, edges := es, dagreGraph := g\<rparr>))"

text \<open>
  \<open>resetSession\<close>: the error it raised, if any, and the session after it. Its state
  updates are queued first and take effect together, in one step of the component.
  After them comes \<open>window.speechSynthesis.cancel()\<close>, which raises in a browser
  without speech output; the stored copy is then not removed and no toast is shown.
\<close>

definition resetSession :: "session \<Rightarrow> js_error option \<times> session" where
  "resetSession s =
     (let s1 = s\<lparr>result := None, uploadedFile := None, topicText := [],
                 hasAnimated := False, selectedAnswers := Map.empty, flippedCards := Map.empty,
                 isExamMode := False, gradingResult := None,
                 nodes := [], edges := [], chatMessages := []\<rparr>
      in if speechAvailable s
         then (None, s1\<lparr>speaking := False, storedResult := None,
                       toasts := toasts s @ [''Session Cleared'']\<rparr>)
         else (Some TypeError, s1))"

text \<open>
  \<open>onNodeClick\<close>. What comes back from the generate route is a parameter: the request
  or the reading of its answer raises, or the answer is read, with its \<open>newEdges\<close> if
  it has any.
\<close>

datatype expand_reply = ExpandRaises | ExpandAnswer "MindMapEdgeRaw list option"

text \<open>The first update: the clicked node shows that it is being expanded.\<close>

definition markThinking :: "FlowNode \<Rightarrow> FlowNode list \<Rightarrow> FlowNode list" where
  "markThinking clicked ns =
     map (\<lambda>n. if node_id n = node_id clicked
               then n\<lparr>border := DashedGreen, node_label := ''Thinking...''\<rparr> else n) ns"

text \<open>The update of the \<open>catch\<close> block: the clicked node gets its label back.\<close>

definition restoreLabel :: "FlowNode \<Rightarrow> FlowNode list \<Rightarrow> FlowNode list" where
  "restoreLabel clicked ns =
     map (\<lambda>n. if node_id n = node_id clicked
               then n\<lparr>border := SolidGrey, node_label := node_label clicked\<rparr> else n) ns"

definition expandFailed :: "FlowNode \<Rightarrow> session \<Rightarrow> session" where
  "expandFailed clicked s =
     s\<lparr>nodes := restoreLabel clicked (nodes s), toasts := toasts s @ [''Could not expand node.'']\<rparr>"

definition allEdges :: "ResultData option \<Rightarrow> MindMapEdgeRaw list \<Rightarrow> MindMapEdgeRaw list" where
  "allEdges r new = (case r of None \<Rightarrow> [] | Some d \<Rightarrow> mindMapEdges d) @ new"

text \<open>
  The new edges go after the ones the result holds, the result (and, by the component's
  effect, its stored copy) takes the whole list, and the graph is rebuilt from it. When
  the rebuild raises, the result has already changed and the \<open>catch\<close> block runs.
\<close>

definition onNodeClick :: "layout \<Rightarrow> FlowNode \<Rightarrow> expand_reply \<Rightarrow> session \<Rightarrow> session" where
  "onNodeClick lay clicked reply s =
     (if node_label clicked = [] then s
      else
        (let s0 = s\<lparr>nodes := markThinking clicked (nodes s),
                    toasts := toasts s @ [''Expanding topic: '' @ node_label clicked @ ''...'']\<rparr>
         in case reply of
              ExpandRaises \<Rightarrow> expandFailed clicked s0
            | ExpandAnswer None \<Rightarrow> s0
            | ExpandAnswer (Some new) \<Rightarrow>
                (let s1 = (case result s of
                             None \<Rightarrow> s0
                           | Some d \<Rightarrow>
                               s0\<lparr>result := Some (d\<lparr>mindMapEdges := allEdges (result s) new\<rparr>),
                                  storedResult := Some (d\<lparr>mindMapEdges := allEdges (result s) new\<rparr>)\<rparr>)
                 in case processMindMapData lay (allEdges (result s) new) s1 of
                      (None, s2) \<Rightarrow> s2\<lparr>toasts := toasts s2 @ [''Mind Map Expanded!'']\<rparr>
                    | (Some x, s2) \<Rightarrow> expandFailed clicked s2)))"


section \<open>Concrete requests and providers\<close>

text \<open>
  A reply wrapped in a code fence, the value it holds, a plain text request, and three
  environments around it: a provider that is always busy, one whose first reply is not
  JSON, and one that answers at once while the environment holds no key.
\<close>

definition fenced_reply :: string where
  "fenced_reply = ''```json'' @ nl @ ''{\"title\":\"T\"}'' @ nl @ ''```''"

definition title_T :: json where
  "title_T = JObject [(js ''title'', JString (js ''T''))]"

definition text_request :: gen_body where
  "text_request = \<lparr>action = None, topic = Some ''Photosynthesis'', fileData = None, mimeType = None,
     srcType = Some ''text'', settings = None, nodeLabel = None, contextText = None, userAnswers = None\<rparr>"

definition busy_env :: gen_env where
  "busy_env = \<lparr>env_GEMINI_API_KEY = Some ''key-from-env'', request_json = Some text_request,
     list_models = (\<lambda>url. ListFetchFails), fetchTranscript = (\<lambda>v. None), pdf_parse = (\<lambda>b. None),
     generateContent = (\<lambda>url parts i. NotOk (Some 503) (Some ''The model is overloaded.''))\<rparr>"

definition flaky_env :: gen_env where
  "flaky_env = busy_env\<lparr>generateContent :=
     (\<lambda>url parts i. if i = 1 then Ok (Some ''not json at all'') else Ok (Some fenced_reply))\<rparr>"

definition nokey_env :: gen_env where
  "nokey_env = busy_env\<lparr>env_GEMINI_API_KEY := None,
     generateContent := (\<lambda>url parts i. Ok (Some fenced_reply))\<rparr>"

text \<open>
  Two model listings (one with no acceptable model and an entry without a name, one with
  an acceptable model), two expand requests (a long topic and no context; a long
  context), an exam and a grade request with long contexts, and a chat request with a
  long context.
\<close>

definition bison_listing :: listing_outcome where
  "bison_listing = Listing (ModelList
     [\<lparr>name = Some ''models/text-bison-001'', supportedGenerationMethods = Some [''generateText'']\<rparr>,
      \<lparr>name = None, supportedGenerationMethods = None\<rparr>])"

definition gemini_listing :: listing_outcome where
  "gemini_listing = Listing (ModelList
     [\<lparr>name = Some ''models/embedding-001'', supportedGenerationMethods = Some [''embedContent'']\<rparr>,
      \<lparr>name = Some ''models/gemini-2.0-flash'', supportedGenerationMethods = Some [''generateContent'', ''countTokens'']\<rparr>,
      \<lparr>name = None, supportedGenerationMethods = None\<rparr>])"





definition long_chat :: chat_body where
  "long_chat = \<lparr>messages = Some [\<lparr>role = ''user'', content = ''What is chlorophyll?''\<rparr>],
     chatContext = Some (replicate 25001 CHR ''x''), chatSettings = None\<rparr>"

text \<open>
  For the page: a layout that puts every node at the origin and one that raises, the
  layout library's graph before any call, a result with one mind-map edge and its two nodes, the edges of an
  expansion that repeats its labels in another case and spacing, an edge list that names
  one label in two cases, and a session that shows this result after an exam was taken,
  graded and left.
\<close>

definition flat_layout :: layout where
  "flat_layout g = Inr (\<lambda>v. (0, 0))"

definition raising_layout :: layout where
  "raising_layout g = Inl TypeError"

definition empty_graph :: dagre_graph where
  "empty_graph = \<lparr>g_nodes = [], g_edges = []\<rparr>"

definition cell_result :: ResultData where
  "cell_result = \<lparr>title = ''Photosynthesis'', summary = ''How plants make sugar.'', keyPoints = [],
     accuracy = ''98%'', timeSaved = ''2h'', quiz = [], flashcards = [],
     mindMapEdges = [\<lparr>source = ''Cell'', target = ''Light Reaction''\<rparr>]\<rparr>"

definition cell_node :: FlowNode where
  "cell_node = \<lparr>node_id = ''cell'', node_label = ''Cell'', position = (- 90, - 30),
     highlighted = True, border = AsBuilt\<rparr>"

definition light_node :: FlowNode where
  "light_node = \<lparr>node_id = ''light_reaction'', node_label = ''Light Reaction'', position = (- 90, - 30),
     highlighted = False, border = AsBuilt\<rparr>"

definition expansion_edges :: "MindMapEdgeRaw list" where
  "expansion_edges = [\<lparr>source = ''cell'', target = ''Light  Reaction''\<rparr>]"

definition sun_edges :: "MindMapEdgeRaw list" where
  "sun_edges = [\<lparr>source = ''Sun'', target = ''Leaf''\<rparr>, \<lparr>source = ''sun'', target = ''Leaf''\<rparr>]"

definition exam_question :: ExamQuestion where
  "exam_question = \<lparr>qid = 1, qtype = Mcq, question = ''Where does the light reaction take place?'',
     options = Some [''Thylakoid'', ''Stroma''], correct = Some ''Thylakoid''\<rparr>"

definition study_session :: session where
  "study_session = \<lparr>loading = False, errorText = None, result = Some cell_result,
     topicText = ''Photosynthesis'', uploadedFile = None, hasAnimated = True,
     chatMessages = [\<lparr>role = ''user'', content = ''What is chlorophyll?''\<rparr>],
     isExamMode = False, examQuestions = [exam_question], examAnswers = [1 \<mapsto> ''Stroma''],
     gradingResult = Some \<lparr>score = ''0/100'', feedback = ''Review the chapter.'', corrections = []\<rparr>,
     selectedAnswers = Map.empty, flippedCards = Map.empty,
     nodes = [cell_node, light_node],
     edges = [\<lparr>edge_id = ''e0'', edge_source = ''cell'', edge_target = ''light_reaction''\<rparr>],
     dagreGraph = \<lparr>g_nodes = [''cell'', ''light_reaction''], g_edges = [(''cell'', ''light_reaction'')]\<rparr>,
     storedResult = Some cell_result, speechAvailable = True, speaking = False, toasts = []\<rparr>"

section \<open>The helpers at work\<close>

lemma getYoutubeVideoId_examples:
  "getYoutubeVideoId ''https://www.youtube.com/watch?v=dQw4w9WgXcQ&t=10s'' = Some ''dQw4w9WgXcQ''
   \<and> getYoutubeVideoId ''https://youtu.be/dQw4w9WgXcQ'' = Some ''dQw4w9WgXcQ''
   \<and> getYoutubeVideoId ''https://example.com/video'' = None"
  by code_simp

lemma formatTimestamp_examples:
  "formatTimestamp 75 = ''[1:15]'' \<and> formatTimestamp 3605 = ''[60:05]''"
  by code_simp

lemma normalize_label_examples:
  "normalize_label ''Light  Reaction'' = ''light_reaction'' \<and> normalize_label '' a'' = ''_a''"
  by code_simp

section \<open>The attempt loop, step by step\<close>

declare executeRequest.simps [simp del]

lemma apiKey_nonempty: "apiKey e \<noteq> []"
  by (simp add: apiKey_def js_or_def FALLBACK_KEY_def split: option.splits)

lemma executeRequest_past_budget: "MAX_RETRIES < i \<Longrightarrow> executeRequest send u ps i = ([], None)"
  by (subst executeRequest.simps) simp

lemma executeRequest_busy_step:
  "i \<le> MAX_RETRIES \<Longrightarrow> attempt (send i) = Inr DelayAndContinue \<Longrightarrow>
   executeRequest send u ps i = prepend [GenerateCall i u ps, Wait DELAY_MS] (executeRequest send u ps (Suc i))"
  by (subst executeRequest.simps) simp

lemma executeRequest_respond:
  "i \<le> MAX_RETRIES \<Longrightarrow> attempt (send i) = Inr (Respond r) \<Longrightarrow>
   executeRequest send u ps i = ([GenerateCall i u ps], Some r)"
  by (subst executeRequest.simps) simp

lemma executeRequest_raise_retry:
  "i < MAX_RETRIES \<Longrightarrow> attempt (send i) = Inl x \<Longrightarrow>
   executeRequest send u ps i = prepend [GenerateCall i u ps] (executeRequest send u ps (Suc i))"
  by (subst executeRequest.simps) simp

lemma executeRequest_raise_last:
  "attempt (send MAX_RETRIES) = Inl x \<Longrightarrow>
   executeRequest send u ps MAX_RETRIES =
     ([GenerateCall MAX_RETRIES u ps], Some (error_response ''AI Service Unavailable. Try again.'' 503))"
  by (subst executeRequest.simps) simp

lemma attempt_busy: "attempt (NotOk (Some 503) m) = Inr DelayAndContinue"
  by (simp add: attempt_def)

lemma executeRequest_always_busy:
  assumes "\<And>i. send i = NotOk (Some 503) (m i)"
  shows "executeRequest send u ps 1 =
     ([GenerateCall 1 u ps, Wait DELAY_MS, GenerateCall 2 u ps, Wait DELAY_MS,
       GenerateCall 3 u ps, Wait DELAY_MS], None)"
proof -
  have b: "attempt (send i) = Inr DelayAndContinue" for i
    by (simp add: assms attempt_busy)
  have e4: "executeRequest send u ps 4 = ([], None)"
    by (rule executeRequest_past_budget) (simp add: MAX_RETRIES_def)
  have e3: "executeRequest send u ps 3 = ([GenerateCall 3 u ps, Wait DELAY_MS], None)"
    using executeRequest_busy_step [of 3 send u ps] b e4
    by (simp add: MAX_RETRIES_def prepend_def eval_nat_numeral)
  have e2: "executeRequest send u ps 2 =
      ([GenerateCall 2 u ps, Wait DELAY_MS, GenerateCall 3 u ps, Wait DELAY_MS], None)"
    using executeRequest_busy_step [of 2 send u ps] b e3
    by (simp add: MAX_RETRIES_def prepend_def eval_nat_numeral)
  show ?thesis
    using executeRequest_busy_step [of 1 send u ps] b e2
    by (simp add: MAX_RETRIES_def prepend_def eval_nat_numeral)
qed

lemma POST_prompt:
  assumes "request_json e = Some b" and "buildPrompt e b = Prompt ps"
  shows "POST e = prepend [ListCall (listUrl e)] (executeRequest (generateContent e (apiUrl e) ps) (apiUrl e) ps 1)"
  using assms apiKey_nonempty [of e]
  by (simp add: POST_def resolveModel_def)

text \<open>
  Whatever the request, once its prompt is built: a provider that is busy at every
  attempt is called three times and the handler ends without a response.
\<close>

lemma POST_always_busy:
  assumes "request_json e = Some b" and "buildPrompt e b = Prompt ps"
    and "\<And>i. generateContent e (apiUrl e) ps i = NotOk (Some 503) (m i)"
  shows "attempts (fst (POST e)) = 3 \<and> snd (POST e) = None"
proof -
  have "executeRequest (generateContent e (apiUrl e) ps) (apiUrl e) ps 1 =
     ([GenerateCall 1 (apiUrl e) ps, Wait DELAY_MS, GenerateCall 2 (apiUrl e) ps, Wait DELAY_MS,
       GenerateCall 3 (apiUrl e) ps, Wait DELAY_MS], None)"
    by (rule executeRequest_always_busy) (rule assms(3))
  with POST_prompt [OF assms(1,2)] show ?thesis
    by (simp add: prepend_def attempts_def)
qed

lemma text_request_prompt: "\<exists>ps. buildPrompt e text_request = Prompt ps"
  by (simp add: buildPrompt_def gatherContent_def text_request_def truthy_def js_or_def)

lemma busy_env_fields:
  "request_json busy_env = Some text_request"
  "generateContent busy_env u ps i = NotOk (Some 503) (Some ''The model is overloaded.'')"
  by (simp_all add: busy_env_def)

section \<open>The retry budget\<close>

text \<open>
  C1. The claim: when the provider answers busy (error code 503) on each of the three
  attempts, the handler makes exactly three attempts and then returns the 503
  "service unavailable" response. On the always-busy provider the handler does make
  exactly three calls, each followed by the delay; but the busy branch leaves the
  iteration with \<open>continue\<close>, which passes by the \<open>catch\<close> block holding the 503
  response, so after the third delay the loop ends and the handler returns no response
  at all.
\<close>

theorem always_busy_provider_gets_no_response:
  "attempts (fst (POST busy_env)) = 3 \<and> snd (POST busy_env) = None"
proof -
  obtain ps where ps: "buildPrompt busy_env text_request = Prompt ps"
    using text_request_prompt by blast
  show ?thesis
    by (rule POST_always_busy [OF busy_env_fields(1) ps]) (rule busy_env_fields(2))
qed

section \<open>Reading the provider's reply\<close>

lemma flaky_env_fields:
  "request_json flaky_env = Some text_request"
  "generateContent flaky_env u ps i = (if i = 1 then Ok (Some ''not json at all'') else Ok (Some fenced_reply))"
  by (simp_all add: flaky_env_def busy_env_def)

lemma nokey_env_fields:
  "request_json nokey_env = Some text_request"
  "env_GEMINI_API_KEY nokey_env = None"
  "generateContent nokey_env u ps i = Ok (Some fenced_reply)"
  by (simp_all add: nokey_env_def busy_env_def)

lemma parse_fenced: "parseReply (Some fenced_reply) = Inr title_T"
  by code_simp

lemma parse_not_json: "parseReply (Some ''not json at all'') = Inl SyntaxError"
  by code_simp

lemma attempt_fenced: "attempt (Ok (Some fenced_reply)) = Inr (Respond \<lparr>status = 200, body = JsonBody title_T\<rparr>)"
  by (simp add: attempt_def parse_fenced)

lemma attempt_not_json: "attempt (Ok (Some ''not json at all'')) = Inl SyntaxError"
  by (simp add: attempt_def parse_not_json)

text \<open>
  C9. For the raw reply consisting of a \<open>```json\<close> fence around \<open>{"title":"T"}\<close>, the
  fence markers are stripped and the remainder parses to the object with the one property
  \<open>title\<close> of value \<open>T\<close>; for the raw reply \<open>not json at all\<close> reading the reply fails
  with the syntax error of a malformed response and gives no result.
\<close>

theorem validator_examples:
  "cleanText fenced_reply = ''{\"title\":\"T\"}''
   \<and> parseReply (Some fenced_reply) = Inr (JObject [(js ''title'', JString (js ''T''))])
   \<and> parseReply (Some ''not json at all'') = Inl SyntaxError"
  by code_simp

text \<open>
  A reply that does not parse on the first attempt, followed by one that does: the
  handler calls the provider a second time and answers with the second reply. So a parse
  failure is retried within the same call.
\<close>

theorem malformed_reply_is_retried:
  "parseReply (Some ''not json at all'') = Inl SyntaxError
   \<and> attempts (fst (POST flaky_env)) = 2
   \<and> snd (POST flaky_env) = Some \<lparr>status = 200, body = JsonBody title_T\<rparr>"
proof -
  obtain ps where ps: "buildPrompt flaky_env text_request = Prompt ps"
    using text_request_prompt by blast
  let ?u = "apiUrl flaky_env"
  let ?send = "generateContent flaky_env ?u ps"
  have p: "POST flaky_env = prepend [ListCall (listUrl flaky_env)] (executeRequest ?send ?u ps 1)"
    using POST_prompt [OF flaky_env_fields(1) ps] .
  have e2: "executeRequest ?send ?u ps (Suc 1) =
      ([GenerateCall (Suc 1) ?u ps], Some \<lparr>status = 200, body = JsonBody title_T\<rparr>)"
    by (rule executeRequest_respond) (simp_all add: MAX_RETRIES_def flaky_env_fields(2) attempt_fenced)
  have e1: "executeRequest ?send ?u ps 1 = prepend [GenerateCall 1 ?u ps] (executeRequest ?send ?u ps (Suc 1))"
    by (rule executeRequest_raise_retry [where x = SyntaxError])
       (simp_all add: MAX_RETRIES_def flaky_env_fields(2) attempt_not_json)
  show ?thesis
    unfolding p e1 e2 by (simp add: prepend_def attempts_def parse_not_json)
qed

text \<open>
  C3, as the handler has it. A reply that fails to parse after the fence markers are
  stripped raises inside the \<open>try\<close> block like any other failure of the attempt: on
  the first and the second attempt it uses the attempt up and the provider is called again;
  only on the third attempt it ends the call, reported as the 503 response
  "AI Service Unavailable. Try again.".
\<close>

theorem malformed_reply_consumes_an_attempt:
  assumes "send i = Ok (Some t)" and "t \<noteq> []" and "JSON_parse (cleanText t) = Inl x"
  shows "(i < MAX_RETRIES \<longrightarrow>
            executeRequest send u ps i = prepend [GenerateCall i u ps] (executeRequest send u ps (Suc i)))
       \<and> (i = MAX_RETRIES \<longrightarrow>
            executeRequest send u ps i =
              ([GenerateCall i u ps], Some (error_response ''AI Service Unavailable. Try again.'' 503)))"
proof -
  have a: "attempt (send i) = Inl x"
    using assms by (simp add: attempt_def parseReply_def truthy_def interp_def)
  show ?thesis
    using a executeRequest_raise_retry [of i send x u ps] executeRequest_raise_last [of send x u ps]
    by auto
qed

text \<open>The same at a provider that never sends JSON: the first attempt and the last.\<close>

theorem malformed_reply_consumes_an_attempt_witness:
  "executeRequest (\<lambda>i. Ok (Some ''not json at all'')) [] [] 1 =
     prepend [GenerateCall 1 [] []] (executeRequest (\<lambda>i. Ok (Some ''not json at all'')) [] [] (Suc 1))
   \<and> executeRequest (\<lambda>i. Ok (Some ''not json at all'')) [] [] 3 =
     ([GenerateCall 3 [] []], Some (error_response ''AI Service Unavailable. Try again.'' 503))"
proof -
  have j: "JSON_parse (cleanText ''not json at all'') = Inl SyntaxError"
    by code_simp
  have n: "''not json at all'' \<noteq> []" by simp
  show ?thesis
    using malformed_reply_consumes_an_attempt [of "\<lambda>i. Ok (Some ''not json at all'')" 1 "''not json at all''" SyntaxError "[]" "[]", OF refl n j]
          malformed_reply_consumes_an_attempt [of "\<lambda>i. Ok (Some ''not json at all'')" 3 "''not json at all''" SyntaxError "[]" "[]", OF refl n j]
    by (simp add: MAX_RETRIES_def)
qed

section \<open>The credential\<close>

lemma POST_nokey_env:
  "snd (POST nokey_env) = Some \<lparr>status = 200, body = JsonBody title_T\<rparr>"
proof -
  obtain ps where ps: "buildPrompt nokey_env text_request = Prompt ps"
    using text_request_prompt by blast
  let ?u = "apiUrl nokey_env"
  let ?send = "generateContent nokey_env ?u ps"
  have p: "POST nokey_env = prepend [ListCall (listUrl nokey_env)] (executeRequest ?send ?u ps 1)"
    using POST_prompt [OF nokey_env_fields(1) ps] .
  have e1: "executeRequest ?send ?u ps 1 = ([GenerateCall 1 ?u ps], Some \<lparr>status = 200, body = JsonBody title_T\<rparr>)"
    by (rule executeRequest_respond) (simp_all add: MAX_RETRIES_def nokey_env_fields(3) attempt_fenced)
  from p e1 show ?thesis
    by (simp add: prepend_def)
qed

text \<open>
  A request made while the environment has no key: the handler goes on with its
  fallback key and answers 200, not 401.
\<close>

theorem missing_env_key_is_not_401:
  "env_GEMINI_API_KEY nokey_env = None
   \<and> snd (POST nokey_env) = Some \<lparr>status = 200, body = JsonBody title_T\<rparr>"
  by (simp add: POST_nokey_env nokey_env_fields(2))

lemma attempt_respond_status: "attempt out = Inr (Respond r) \<Longrightarrow> status r = 200"
  by (auto simp: attempt_def split: attempt_outcome.splits if_splits sum.splits)

lemma executeRequest_status:
  "snd (executeRequest send u ps i) = Some r \<Longrightarrow> status r = 200 \<or> status r = 503"
proof (induction send u ps i rule: executeRequest.induct)
  case (1 send apiUrl parts i)
  show ?case
  proof (cases "i \<le> MAX_RETRIES")
    case False
    with 1(3) show ?thesis by (simp add: executeRequest_past_budget)
  next
    case le: True
    show ?thesis
    proof (cases "attempt (send i)")
      case (Inl x)
      show ?thesis
      proof (cases "i = MAX_RETRIES")
        case True
        with Inl 1(3) show ?thesis
          by (auto simp: executeRequest_raise_last error_response_def)
      next
        case False
        with le have lt: "i < MAX_RETRIES" by simp
        from 1(3) have "snd (executeRequest send apiUrl parts (Suc i)) = Some r"
          using executeRequest_raise_retry [of i send x apiUrl parts] lt Inl by (simp add: prepend_def)
        with 1(1) [OF le Inl False] show ?thesis by simp
      qed
    next
      case (Inr res)
      show ?thesis
      proof (cases res)
        case (Respond r')
        with Inr le 1(3) show ?thesis
          by (simp add: executeRequest_respond attempt_respond_status)
      next
        case DelayAndContinue
        from 1(3) have "snd (executeRequest send apiUrl parts (Suc i)) = Some r"
          using Inr DelayAndContinue le by (simp add: executeRequest_busy_step prepend_def)
        with 1(2) [OF le Inr DelayAndContinue] show ?thesis by simp
      qed
    qed
  qed
qed

lemma gatherContent_return_400: "gatherContent e b = ContentReturn r \<Longrightarrow> status r = 400"
  by (auto simp: gatherContent_def error_response_def Let_def split: if_splits option.splits)

lemma buildPrompt_return_400: "buildPrompt e b = PromptReturn r \<Longrightarrow> status r = 400"
  by (auto simp: buildPrompt_def split: if_splits content_result.splits dest: gatherContent_return_400)

text \<open>
  C5, as the handler has it. The handler never responds 401: the statuses it returns are
  200, 400, 500 and 503. When the environment holds no key (none, or the empty text),
  the handler takes its built-in fallback key, and once the request body is read its
  first call is the model listing with that key.
\<close>

theorem POST_statuses_and_fallback_key:
  "(\<forall>r. snd (POST e) = Some r \<longrightarrow> status r \<in> {200, 400, 500, 503})
   \<and> (\<forall>b. request_json e = Some b \<and> \<not> truthy (env_GEMINI_API_KEY e) \<longrightarrow>
          apiKey e = FALLBACK_KEY \<and> take 1 (fst (POST e)) = [ListCall (API_BASE @ ''?key='' @ FALLBACK_KEY)])"
proof (intro conjI allI impI)
  fix r assume r: "snd (POST e) = Some r"
  show "status r \<in> {200, 400, 500, 503}"
  proof (cases "request_json e")
    case None
    with r show ?thesis by (auto simp: POST_def error_response_def)
  next
    case (Some b)
    show ?thesis
    proof (cases "buildPrompt e b")
      case (Prompt ps)
      with Some r executeRequest_status [of "generateContent e (apiUrl e) ps" "apiUrl e" ps 1 r]
      show ?thesis by (auto simp: POST_prompt prepend_def)
    next
      case (PromptReturn r')
      with Some r apiKey_nonempty [of e] buildPrompt_return_400 [of e b r'] show ?thesis
        by (auto simp: POST_def)
    next
      case (PromptRaise x)
      with Some r apiKey_nonempty [of e] show ?thesis
        by (auto simp: POST_def error_response_def)
    qed
  qed
next
  fix b assume "request_json e = Some b \<and> \<not> truthy (env_GEMINI_API_KEY e)"
  then have b: "request_json e = Some b" and k: "apiKey e = FALLBACK_KEY"
    by (auto simp: apiKey_def js_or_def truthy_def split: option.splits)
  show "apiKey e = FALLBACK_KEY" by (rule k)
  show "take 1 (fst (POST e)) = [ListCall (API_BASE @ ''?key='' @ FALLBACK_KEY)]"
    using b k apiKey_nonempty [of e]
    by (cases "buildPrompt e b") (simp_all add: POST_def resolveModel_def prepend_def listUrl_def)
qed

text \<open>The same at the request made with no key in the environment.\<close>

theorem POST_statuses_and_fallback_key_witness:
  "snd (POST nokey_env) = Some \<lparr>status = 200, body = JsonBody title_T\<rparr>
   \<and> status \<lparr>status = 200, body = JsonBody title_T\<rparr> \<in> {200, 400, 500, 503}
   \<and> request_json nokey_env = Some text_request \<and> \<not> truthy (env_GEMINI_API_KEY nokey_env)
   \<and> apiKey nokey_env = FALLBACK_KEY
   \<and> take 1 (fst (POST nokey_env)) = [ListCall (API_BASE @ ''?key='' @ FALLBACK_KEY)]"
  using POST_statuses_and_fallback_key [of nokey_env] POST_nokey_env nokey_env_fields(1,2)
  by (simp add: truthy_def)

section \<open>Model discovery\<close>

lemma find_model_none:
  "\<forall>m \<in> set ms. pred m \<noteq> Inr True \<Longrightarrow> find_model pred ms = Inr None \<or> (\<exists>x. find_model pred ms = Inl x)"
proof (induction ms)
  case Nil
  then show ?case by simp
next
  case (Cons m ms)
  then show ?case
    by (cases "pred m") auto
qed

text \<open>
  C7. The model resolver never raises: its result is a model id in every case. It makes
  one listing call, and when that call fails (the fetch fails, the body is not JSON, the
  listing is null, has no model list or one that is not an array), or when no listed
  model is acceptable (none matches, or an entry without a name ends the search), the
  result is the hard-coded default model id. In every case the result is the default or
  the id that the discovery found.
\<close>

theorem resolveModel_falls_back:
  "fst (resolveModel fetch url) = [ListCall url]
   \<and> (fetch url \<in> {ListFetchFails, ListNotJson, ListNull, Listing NoModels, Listing NotAnArray}
        \<longrightarrow> snd (resolveModel fetch url) = DEFAULT_MODEL)
   \<and> (\<forall>ms. fetch url = Listing (ModelList ms) \<and> (\<forall>m \<in> set ms. acceptable m \<noteq> Inr True)
        \<longrightarrow> snd (resolveModel fetch url) = DEFAULT_MODEL)
   \<and> (snd (resolveModel fetch url) = DEFAULT_MODEL
        \<or> discoverModel acceptable (fetch url) = Inr (Some (snd (resolveModel fetch url))))"
proof (intro conjI allI impI)
  show "fst (resolveModel fetch url) = [ListCall url]"
    by (simp add: resolveModel_def)
next
  assume "fetch url \<in> {ListFetchFails, ListNotJson, ListNull, Listing NoModels, Listing NotAnArray}"
  then show "snd (resolveModel fetch url) = DEFAULT_MODEL"
    by (auto simp: resolveModel_def discoverModel_def)
next
  fix ms
  assume a: "fetch url = Listing (ModelList ms) \<and> (\<forall>m \<in> set ms. acceptable m \<noteq> Inr True)"
  then have "find_model acceptable ms = Inr None \<or> (\<exists>x. find_model acceptable ms = Inl x)"
    using find_model_none [of ms acceptable] by blast
  with a show "snd (resolveModel fetch url) = DEFAULT_MODEL"
    by (auto simp: resolveModel_def discoverModel_def)
next
  show "snd (resolveModel fetch url) = DEFAULT_MODEL
        \<or> discoverModel acceptable (fetch url) = Inr (Some (snd (resolveModel fetch url)))"
    by (auto simp: resolveModel_def split: sum.splits option.splits)
qed

lemma acceptable_bison:
  "acceptable \<lparr>name = Some ''models/text-bison-001'', supportedGenerationMethods = Some [''generateText'']\<rparr> = Inr False"
  by (simp add: acceptable_def)

lemma acceptable_nameless:
  "acceptable \<lparr>name = None, supportedGenerationMethods = None\<rparr> = Inl TypeError"
  by (simp add: acceptable_def)

text \<open>The same at a listing call that fails and at a listing with no acceptable model.\<close>

theorem resolveModel_falls_back_witness:
  "snd (resolveModel (\<lambda>u. ListFetchFails) ''list'') = DEFAULT_MODEL
   \<and> fst (resolveModel (\<lambda>u. ListFetchFails) ''list'') = [ListCall ''list'']
   \<and> snd (resolveModel (\<lambda>u. bison_listing) ''list'') = DEFAULT_MODEL"
proof -
  have "\<forall>m \<in> set [\<lparr>name = Some ''models/text-bison-001'', supportedGenerationMethods = Some [''generateText'']\<rparr>,
      \<lparr>name = None, supportedGenerationMethods = None\<rparr>]. acceptable m \<noteq> Inr True"
    by (simp add: acceptable_bison acceptable_nameless)
  then show ?thesis
    using resolveModel_falls_back [of "\<lambda>u. ListFetchFails" "''list''"]
          resolveModel_falls_back [of "\<lambda>u. bison_listing" "''list''"]
    by (simp add: bison_listing_def)
qed

text \<open>A listing with an acceptable model: its name, without the \<open>models/\<close> prefix.\<close>

lemma resolveModel_picks_listed_model:
  "snd (resolveModel (\<lambda>u. gemini_listing) ''list'') = ''gemini-2.0-flash''"
  by (simp add: resolveModel_def discoverModel_def gemini_listing_def acceptable_def)

section \<open>What the prompts hold\<close>

lemma starts_with_append: "starts_with (p @ r) p"
  by (induction p) simp_all

lemma includes_str_here: "includes_str (p @ r) p"
proof (cases "p @ r")
  case Nil
  then show ?thesis by simp
next
  case (Cons c cs)
  have "starts_with (p @ r) p" by (rule starts_with_append)
  with Cons show ?thesis by simp
qed

lemma includes_str_later: "includes_str r p \<Longrightarrow> includes_str (a @ r) p"
  by (induction a) simp_all



lemma includes_str_here7:
  "includes_str (a1 @ a2 @ a3 @ a4 @ a5 @ a6 @ a7 @ r) (a1 @ a2 @ a3 @ a4 @ a5 @ a6 @ a7)"
  using includes_str_here [of "a1 @ a2 @ a3 @ a4 @ a5 @ a6 @ a7" r] by simp

lemma chat_instruction_delimits:
  "includes_str (chatSystemInstruction b)
     (''\"\"\"'' @ nl @ indent 12 @ groundingContext (chatContext b) @ nl @ indent 12 @ ''\"\"\"'')"
  unfolding chatSystemInstruction_def template_def
  apply (simp only: list.map concat.simps append_assoc append_Nil2)
  apply (rule includes_str_here7 | rule includes_str_later)+
  done


lemma chat_instruction_length:
  "length (chatSystemInstruction b) =
     574 + length (groundingContext (chatContext b))
     + length (js_or (case chatSettings b of None \<Rightarrow> None | Some st \<Rightarrow> language st) ''english'')"
  by (simp add: chatSystemInstruction_def template_def nl_def indent_def)






section \<open>The chat route's grounding context\<close>

text \<open>
  C10. The grounding context embedded into the chat system instruction holds at most
  25000 characters: a context that is supplied is cut to its first 25000 characters, and
  when none is supplied (absent or empty) the text "No specific context provided." is
  embedded instead. The instruction holds that text on the line between its two lines of
  three quotes, and beyond it only its fixed text of 574 characters and the language.
\<close>

theorem chat_context_limit:
  "length (groundingContext c) \<le> 25000
   \<and> (truthy c \<longrightarrow> groundingContext c = take 25000 (interp c))
   \<and> (\<not> truthy c \<longrightarrow> groundingContext c = ''No specific context provided.'')
   \<and> includes_str (chatSystemInstruction b)
        (''\"\"\"'' @ nl @ indent 12 @ groundingContext (chatContext b) @ nl @ indent 12 @ ''\"\"\"'')
   \<and> length (chatSystemInstruction b) =
        574 + length (groundingContext (chatContext b))
        + length (js_or (case chatSettings b of None \<Rightarrow> None | Some st \<Rightarrow> language st) ''english'')"
  using chat_instruction_delimits [of b] chat_instruction_length [of b]
  by (simp add: groundingContext_def context_or_def)

text \<open>The same at a context of 25001 characters and at requests without one.\<close>

theorem chat_context_limit_witness:
  "groundingContext (chatContext long_chat) = replicate 25000 CHR ''x''
   \<and> length (groundingContext (chatContext long_chat)) \<le> 25000
   \<and> groundingContext None = ''No specific context provided.''
   \<and> groundingContext (Some []) = ''No specific context provided.''
   \<and> includes_str (chatSystemInstruction long_chat)
        (''\"\"\"'' @ nl @ indent 12 @ replicate 25000 CHR ''x'' @ nl @ indent 12 @ ''\"\"\"'')
   \<and> length (chatSystemInstruction long_chat) = 574 + 25000 + 7"
proof -
  have t: "truthy (chatContext long_chat)" "interp (chatContext long_chat) = replicate 25001 CHR ''x''"
    "chatSettings long_chat = None"
    by (simp_all add: long_chat_def truthy_def interp_def)
  have n: "\<not> truthy None" "\<not> truthy (Some [])"
    by (simp_all add: truthy_def)
  show ?thesis
    using chat_context_limit [of "chatContext long_chat" long_chat]
          chat_context_limit [of None long_chat] chat_context_limit [of "Some []" long_chat] t n
    by (simp add: js_or_def)
qed


section \<open>The mind-map graph\<close>

text \<open>
  What the builder does for every edge list, when the layout does not raise: one node per
  distinct label as written, in order of first appearance, each with the normalized label
  as its id; one rendered edge per input edge; and node ids that depend on the edge list
  alone, not on the layout or on what the layout library's graph held before. When the
  layout raises, so does the builder.
\<close>

lemma uniqueNodes_acc:
  "set (foldl (\<lambda>acc ed. add_unique (target ed) (add_unique (source ed) acc)) xs es)
     = set xs \<union> source ` set es \<union> target ` set es
   \<and> (distinct xs \<longrightarrow> distinct (foldl (\<lambda>acc ed. add_unique (target ed) (add_unique (source ed) acc)) xs es))"
  by (induction es arbitrary: xs) (auto simp: add_unique_def)

lemma set_uniqueNodes: "set (uniqueNodes es) = source ` set es \<union> target ` set es"
  using uniqueNodes_acc [of "[]" es] by (simp add: uniqueNodes_def)

lemma distinct_uniqueNodes: "distinct (uniqueNodes es)"
  using uniqueNodes_acc [of "[]" es] by (simp add: uniqueNodes_def)

lemma map_fst_zip_same: "length xs = length ys \<Longrightarrow> map (\<lambda>x. f (fst x)) (zip xs ys) = map f xs"
  by (induction xs ys rule: list_induct2) simp_all

lemma map_fst_zip_upt: "map (\<lambda>x. f (fst x)) (zip xs [0 ..< length xs]) = map f xs"
  by (rule map_fst_zip_same) simp

lemma buildGraph_nodes:
  assumes "snd (buildGraph lay g es) = Inr (ns, es')"
  shows "map node_label ns = uniqueNodes es"
    and "map node_id ns = map normalize_label (uniqueNodes es)"
    and "length es' = length es"
  using assms
  by (auto simp: buildGraph_def getLayoutedElements_def newNodes_def newEdges_def Let_def o_def
        split_def map_fst_zip_upt split: sum.splits)

lemma buildGraph_node_count:
  assumes "snd (buildGraph lay g es) = Inr (ns, es')"
  shows "length ns = card (source ` set es \<union> target ` set es)"
  using buildGraph_nodes(1) [OF assms] distinct_card [OF distinct_uniqueNodes [of es]]
  by (metis length_map set_uniqueNodes)

lemma buildGraph_ids_stable:
  assumes "snd (buildGraph lay g es) = Inr (ns, es1)" and "snd (buildGraph lay' g' es) = Inr (ns', es2)"
  shows "map node_id ns = map node_id ns'"
  using buildGraph_nodes(2) [OF assms(1)] buildGraph_nodes(2) [OF assms(2)] by simp

lemma buildGraph_raises:
  "lay (fst (buildGraph lay g es)) = Inl x \<Longrightarrow> snd (buildGraph lay g es) = Inl x"
  by (simp add: buildGraph_def getLayoutedElements_def Let_def)

text \<open>
  An expansion whose rebuild raises: the result has taken the new edge, the nodes are the
  old ones, the clicked one with its label back and the grey border, and the last toast
  says that the node could not be expanded.
\<close>

lemma onNodeClick_layout_raises:
  "map node_label (nodes (onNodeClick raising_layout cell_node (ExpandAnswer (Some expansion_edges)) study_session))
     = [''Cell'', ''Light Reaction'']
   \<and> map border (nodes (onNodeClick raising_layout cell_node (ExpandAnswer (Some expansion_edges)) study_session))
     = [SolidGrey, AsBuilt]
   \<and> map_option mindMapEdges
        (result (onNodeClick raising_layout cell_node (ExpandAnswer (Some expansion_edges)) study_session))
     = Some (mindMapEdges cell_result @ expansion_edges)
   \<and> toasts (onNodeClick raising_layout cell_node (ExpandAnswer (Some expansion_edges)) study_session)
     = [''Expanding topic: Cell...'', ''Could not expand node.'']"
  by code_simp

text \<open>
  C2. The claim: merging two edge lists and rebuilding the graph never gives two nodes
  whose labels differ only in letter case or in white space. The set of labels is
  collected from the labels as written, and only the id is normalized: after the
  expansion below the graph has a node for \<open>Cell\<close> and one for \<open>cell\<close>, a node for
  \<open>Light Reaction\<close> and one for the same words two spaces apart, and the two nodes of
  each pair carry the same id.
\<close>

theorem expansion_duplicates_node_ids:
  "map node_label (nodes (onNodeClick flat_layout cell_node (ExpandAnswer (Some expansion_edges)) study_session))
     = [''Cell'', ''Light Reaction'', ''cell'', ''Light  Reaction'']
   \<and> map node_id (nodes (onNodeClick flat_layout cell_node (ExpandAnswer (Some expansion_edges)) study_session))
     = [''cell'', ''light_reaction'', ''cell'', ''light_reaction'']"
  by code_simp

text \<open>
  C6. The claim: building gives exactly one node per distinct normalized label, exactly
  one rendered edge per input edge, and the same node ids when run again. The edge list
  below names two distinct normalized labels and the builder gives three nodes, two of
  them with the id \<open>sun\<close>; the two input edges do give the two rendered edges \<open>e0\<close>
  and \<open>e1\<close>.
\<close>

theorem build_duplicates_node_id:
  "snd (buildGraph flat_layout empty_graph sun_edges) =
     Inr ([\<lparr>node_id = ''sun'', node_label = ''Sun'', position = (- 90, - 30), highlighted = True, border = AsBuilt\<rparr>,
           \<lparr>node_id = ''leaf'', node_label = ''Leaf'', position = (- 90, - 30), highlighted = False, border = AsBuilt\<rparr>,
           \<lparr>node_id = ''sun'', node_label = ''sun'', position = (- 90, - 30), highlighted = False, border = AsBuilt\<rparr>],
          [\<lparr>edge_id = ''e0'', edge_source = ''sun'', edge_target = ''leaf''\<rparr>,
           \<lparr>edge_id = ''e1'', edge_source = ''sun'', edge_target = ''leaf''\<rparr>])
   \<and> remdups (map normalize_label (map source sun_edges @ map target sun_edges)) = [''sun'', ''leaf'']"
  by code_simp

section \<open>Resetting the session\<close>

text \<open>
  What the reset does outside the component's state depends on the browser: with speech
  output the stored copy is removed; without it the reset raises before that.
\<close>

lemma resetSession_storage:
  "speechAvailable s \<Longrightarrow> fst (resetSession s) = None \<and> storedResult (snd (resetSession s)) = None"
  "\<not> speechAvailable s \<Longrightarrow>
     fst (resetSession s) = Some TypeError \<and> storedResult (snd (resetSession s)) = storedResult s
     \<and> toasts (snd (resetSession s)) = toasts s"
  by (simp_all add: resetSession_def Let_def)

text \<open>
  A session that shows a result after an exam was taken and left: after the reset the
  exam's question and the submitted answer are still in the state.
\<close>

theorem reset_keeps_exam_questions_and_answers:
  "isExamMode study_session = False
   \<and> examQuestions (snd (resetSession study_session)) = [exam_question]
   \<and> examAnswers (snd (resetSession study_session)) 1 = Some ''Stroma''"
  by (simp add: resetSession_def study_session_def Let_def)

text \<open>
  C4, as the page has it. For every session state the reset clears, in its one step,
  the study bundle, the nodes and the edges of the mind map, the chat history and the
  exam's grading result, and leaves exam mode; the exam's questions and the submitted
  answers are left as they are.
\<close>

theorem resetSession_clears:
  "result (snd (resetSession s)) = None
   \<and> nodes (snd (resetSession s)) = [] \<and> edges (snd (resetSession s)) = []
   \<and> chatMessages (snd (resetSession s)) = []
   \<and> gradingResult (snd (resetSession s)) = None \<and> isExamMode (snd (resetSession s)) = False
   \<and> examQuestions (snd (resetSession s)) = examQuestions s
   \<and> examAnswers (snd (resetSession s)) = examAnswers s"
  by (simp add: resetSession_def Let_def)

end
